theory Spec2Isabelle
  imports Main "HOL-Library.Word"
begin

unbundle bit_operations_syntax

section \<open>Data model of the kernel process layer\<close>

text \<open>
  The embedding follows \<^verbatim>\<open>core/hle/kernel/process.cpp\<close>. Objects that the C++ code shares
  through \<^verbatim>\<open>SharedPtr\<close> are kept in arenas: a pointer to a thread is the index of the
  thread in \<open>thread_arena\<close>, a pointer to a process is the index under which the kernel
  registered it. A member function takes the object it is called on and returns the
  updated object; where it needs the identity of \<^verbatim>\<open>this\<close>, the pointer is a parameter
  of its own.
\<close>

type_synonym u8 = "8 word"
type_synonym u32 = "32 word"
type_synonym u64 = "64 word"
type_synonym VAddr = u64
type_synonym Handle = u32
type_synonym s32 = "32 word"

text \<open>\<^verbatim>\<open>std::bitset<8>\<close>: bit \<open>n\<close> of the word is slot \<open>n\<close> of the page.\<close>

type_synonym bitset8 = "8 word"

datatype ProcessStatus = Created | Running | Exiting | Exited

text \<open>
  \<^verbatim>\<open>ResultCode\<close> (\<^verbatim>\<open>result.h\<close> and \<^verbatim>\<open>errors.h\<close> are not under src/): the success
  code and the invalid-state error that \<^verbatim>\<open>process.cpp\<close> names, the errors with which the
  modelled address-space manager and handle table reject a request, and every other
  error code by a number.
\<close>

datatype ResultCode =
    RESULT_SUCCESS
  | ERR_INVALID_STATE
  | ERR_INVALID_ADDRESS
  | ERR_INVALID_ADDRESS_STATE
  | ERR_HANDLE_TABLE_FULL
  | ERR_OTHER nat

definition IsError :: "ResultCode \<Rightarrow> bool" where
  "IsError r = (r \<noteq> RESULT_SUCCESS)"

text \<open>
  What ends the host program instead of returning: a failed \<^verbatim>\<open>ASSERT\<close> (also the one
  inside \<^verbatim>\<open>ResultVal::Unwrap\<close>), an index into a \<^verbatim>\<open>std::vector\<close> past its end,
  which \<^verbatim>\<open>operator[]\<close> does not check, and the exceptions of the standard library
  that nothing in the source catches: the \<^verbatim>\<open>std::out_of_range\<close> that a \<^verbatim>\<open>std::bitset\<close>
  throws for a position past its size, and the \<^verbatim>\<open>std::length_error\<close> and
  \<^verbatim>\<open>std::bad_alloc\<close> with which the construction of a \<^verbatim>\<open>std::vector\<close> fails.
\<close>

datatype fault =
    AssertionFailure
  | UncheckedOutOfRange
  | StdOutOfRange
  | StdLengthError
  | StdBadAlloc

datatype MemoryState = Code | CodeData | Heap | Stack | ThreadLocal

text \<open>
  Modelled from the spec: the thread states and the thread object (\<^verbatim>\<open>thread.h\<close> is not
  under src/). The spec names kernel-internal run, wait and dormant states; the source of
  \<^verbatim>\<open>process.cpp\<close> names \<^verbatim>\<open>ThreadStatus::WaitSynch\<close> and says that threads are dormant
  by default. A thread has the fields that \<^verbatim>\<open>Thread::Create\<close> is given in
  \<^verbatim>\<open>SetupMainThread\<close>, its owner, its status, its registers, its TLS memory and the
  address of its TLS slot.
\<close>

datatype ThreadStatus =
    ThreadStatus_Running
  | ThreadStatus_Ready
  | ThreadStatus_WaitSynch
  | ThreadStatus_WaitSleep
  | ThreadStatus_Dormant
  | ThreadStatus_Dead

record Thread =
  thr_name :: string
  entry_point :: VAddr
  priority :: u32
  arg :: u64
  processor_id :: u32
  stack_top :: VAddr
  owner_process :: nat
  thr_status :: ThreadStatus
  cpu_registers :: "u64 list"
  tls_memory :: "u8 list"
  thr_tls_address :: VAddr

text \<open>
  Modelled from the spec: the address space (\<^verbatim>\<open>vm_manager.h\<close> is not under src/), a list
  of mapped regions, each with base address, size, backing storage and state, and the
  region boundaries that the source reads through accessors. \<open>vma_backing\<close> is the
  backing vector as it is when the region is mapped; the region shows \<open>vma_size\<close> bytes
  of it from \<open>vma_offset\<close>.
\<close>

record VirtualMemoryArea =
  vma_base :: VAddr
  vma_size :: u64
  vma_backing :: "u8 list"
  vma_offset :: nat
  vma_state :: MemoryState

record VMManager =
  address_space_type :: u8
  code_region_base :: VAddr
  tls_io_region_base :: VAddr
  tls_io_region_end :: VAddr
  vma_map :: "VirtualMemoryArea list"

text \<open>
  Modelled from the spec: the capability set and the handle table
  (\<^verbatim>\<open>process_capability.h\<close> and \<^verbatim>\<open>handle_table.h\<close> are not under src/). Of a
  capability set the source reads the handle-table size; a handle table has a size and
  the objects it refers to.
\<close>

record ProcessCapabilities =
  metadataless :: bool
  handle_table_size :: nat

record HandleTable =
  table_size :: nat
  objects :: "nat list"

text \<open>
  The members of \<^verbatim>\<open>Process\<close> that \<^verbatim>\<open>process.cpp\<close> uses; \<open>is_signaled\<close> and
  \<open>waiting_threads\<close> are those of its base class \<^verbatim>\<open>WaitObject\<close>.
\<close>

record Process =
  name :: string
  resource_limit :: nat
  status :: ProcessStatus
  program_id :: u64
  process_id :: u64
  capabilities :: ProcessCapabilities
  random_entropy :: "u64 list"
  is_signaled :: bool
  waiting_threads :: "nat list"
  ideal_core :: u8
  is_64bit_process :: bool
  vm_manager :: VMManager
  handle_table :: HandleTable
  main_thread_stack_size :: u64
  code_memory_size :: u64
  tls_slots :: "bitset8 list"
  thread_list :: "nat list"

text \<open>
  Modelled from the spec: the parts of \<^verbatim>\<open>Core::System\<close>, \<^verbatim>\<open>KernelCore\<close>, the
  schedulers and \<^verbatim>\<open>Settings::values\<close> that \<^verbatim>\<open>process.cpp\<close> reads or writes (their
  files are not under src/): the optional RNG seed, the counter from which process IDs
  are assigned in increasing order, the system resource limit, the list of created
  processes, the thread objects, the Global Scheduler's flat thread list and the thread
  that runs on the calling core (none when the core is idle).
\<close>

record System =
  rng_seed :: "u32 option"
  next_process_id :: u64
  system_resource_limit :: nat
  process_list :: "nat list"
  thread_arena :: "Thread list"
  global_thread_list :: "nat list"
  current_thread :: "nat option"

section \<open>Process creation\<close>

text \<open>
  Modelled from the spec: \<^verbatim>\<open>ProcessCapability::InitializeForMetadatalessProcess\<close>
  (\<^verbatim>\<open>process_capability.cpp\<close> is not under src/) gives the default capability set used
  before a program image is loaded.
\<close>

definition InitializeForMetadatalessProcess :: "ProcessCapabilities \<Rightarrow> ProcessCapabilities" where
  "InitializeForMetadatalessProcess c = c\<lparr>metadataless := True\<rparr>"

text \<open>
  Modelled from the spec: \<^verbatim>\<open>new Process(system)\<close>, the constructor with the member
  initialisers of the class declaration (\<^verbatim>\<open>process.h\<close> is not under src/). A new process
  is not signaled, owns no TLS page and no thread, and nobody waits on it. The state in
  which the constructor of the address-space manager leaves it is the parameter
  \<open>new_vm\<close>.
\<close>

definition new_Process :: "VMManager \<Rightarrow> Process" where
  "new_Process new_vm =
     \<lparr> name = [], resource_limit = 0, status = Created, program_id = 0, process_id = 0,
       capabilities = \<lparr>metadataless = False, handle_table_size = 0\<rparr>,
       random_entropy = [], is_signaled = False, waiting_threads = [],
       ideal_core = 0, is_64bit_process = False, vm_manager = new_vm,
       handle_table = \<lparr>table_size = 0, objects = []\<rparr>,
       main_thread_stack_size = 0, code_memory_size = 0, tls_slots = [], thread_list = [] \<rparr>"

text \<open>
  \<^verbatim>\<open>Process::Create\<close>. The standard library's generator is a parameter:
  \<open>mt19937_draw seed i\<close> is the \<open>i\<close>-th value that
  \<^verbatim>\<open>std::uniform_int_distribution<u64>\<close> draws from a \<^verbatim>\<open>std::mt19937\<close> seeded with
  \<open>seed\<close>; \<^verbatim>\<open>std::generate\<close> fills the buffer front to back. The length of the buffer,
  \<^verbatim>\<open>RANDOM_ENTROPY_SIZE\<close>, is a constant of the missing header and a parameter here. The
  result is the pointer to the new process, the process and the updated system.
\<close>

definition Create ::
  "VMManager \<Rightarrow> nat \<Rightarrow> (u32 \<Rightarrow> nat \<Rightarrow> u64) \<Rightarrow> System \<Rightarrow> string \<Rightarrow> nat \<times> Process \<times> System" where
  "Create new_vm RANDOM_ENTROPY_SIZE mt19937_draw system nm =
     (let this = length (process_list system);
          process = (new_Process new_vm)
            \<lparr> name := nm,
              resource_limit := system_resource_limit system,
              status := Created,
              program_id := 0,
              process_id := next_process_id system \<rparr>;
          process = process\<lparr>capabilities := InitializeForMetadatalessProcess (capabilities process)\<rparr>;
          seed = (case rng_seed system of Some s \<Rightarrow> s | None \<Rightarrow> 0);
          process = process\<lparr>random_entropy := map (mt19937_draw seed) [0..<RANDOM_ENTROPY_SIZE]\<rparr>
      in (this, process,
          system\<lparr>next_process_id := next_process_id system + 1,
                 process_list := process_list system @ [this]\<rparr>))"

section \<open>Signal state\<close>

text \<open>\<^verbatim>\<open>Process::ClearSignalState\<close>: the result code and the process afterwards.\<close>

definition ClearSignalState :: "Process \<Rightarrow> ResultCode \<times> Process" where
  "ClearSignalState p =
     (if status p = Exited then (ERR_INVALID_STATE, p)
      else if \<not> is_signaled p then (ERR_INVALID_STATE, p)
      else (RESULT_SUCCESS, p\<lparr>is_signaled := False\<rparr>))"

section \<open>Collaborators of the process\<close>

text \<open>
  Modelled from the spec: \<^verbatim>\<open>ResultVal::Unwrap\<close> (\<^verbatim>\<open>result.h\<close> is not under src/). The
  spec makes a violated host-internal invariant a fatal assertion: unwrapping a result
  that holds an error code instead of a value fails the assertion, and a value is passed
  on.
\<close>

definition Unwrap :: "ResultCode + 'a \<Rightarrow> fault + 'a" where
  "Unwrap r = (case r of Inl e \<Rightarrow> Inl AssertionFailure | Inr v \<Rightarrow> Inr v)"

text \<open>
  Modelled from the spec: \<^verbatim>\<open>Common::AlignUp\<close> (\<^verbatim>\<open>common/alignment.h\<close> is not under
  src/) rounds a value up to a multiple of \<open>size\<close>, in the unsigned 64-bit arithmetic of
  its argument.
\<close>

definition AlignUp :: "u64 \<Rightarrow> u64 \<Rightarrow> u64" where
  "AlignUp v sz = v + (sz - v mod sz) mod sz"

text \<open>
  \<^verbatim>\<open>std::make_shared<std::vector<u8>>(n)\<close>: a new vector of \<open>n\<close> zero bytes. The
  constructor of the standard library throws \<^verbatim>\<open>std::length_error\<close> when \<open>n\<close> is above
  the \<^verbatim>\<open>max_size\<close> of the vector, and \<^verbatim>\<open>std::bad_alloc\<close> when the host has no memory
  for it; the source catches neither. Both limits belong to the platform and are
  parameters: \<open>vector_max_size\<close>, and \<open>host_allocates n\<close>, which says whether the host
  grants \<open>n\<close> bytes.
\<close>

definition make_shared_vector :: "nat \<Rightarrow> (nat \<Rightarrow> bool) \<Rightarrow> nat \<Rightarrow> fault + u8 list" where
  "make_shared_vector vector_max_size host_allocates n =
     (if vector_max_size < n then Inl StdLengthError
      else if \<not> host_allocates n then Inl StdBadAlloc
      else Inr (replicate n 0))"

text \<open>
  Modelled from the spec: the address-space manager (\<^verbatim>\<open>vm_manager.cpp\<close> is not under
  src/). A region is a range of the 64-bit address space, and mapped regions never
  overlap: \<open>MapMemoryBlock\<close> rejects a range that runs past the end of the address space
  and a range that intersects a mapped region, and otherwise records the region with
  its backing and its state and returns its handle. \<open>Reset\<close> leaves an address space of
  the given type with no mapping; where the regions of a type lie is a table of the
  missing file, the parameter \<open>layout\<close> (code-region base, TLS/IO region base, TLS/IO
  region end).
\<close>

definition regions_intersect :: "VAddr \<Rightarrow> u64 \<Rightarrow> VAddr \<Rightarrow> u64 \<Rightarrow> bool" where
  "regions_intersect b1 s1 b2 s2 =
     (max (unat b1) (unat b2) < min (unat b1 + unat s1) (unat b2 + unat s2))"

definition MapMemoryBlock ::
  "VMManager \<Rightarrow> VAddr \<Rightarrow> u8 list \<Rightarrow> nat \<Rightarrow> u64 \<Rightarrow> MemoryState \<Rightarrow> ResultCode + (nat \<times> VMManager)" where
  "MapMemoryBlock vm target block offset sz st =
     (if 2 ^ 64 < unat target + unat sz then Inl ERR_INVALID_ADDRESS
      else if list_ex (\<lambda>r. regions_intersect target sz (vma_base r) (vma_size r)) (vma_map vm)
      then Inl ERR_INVALID_ADDRESS_STATE
      else Inr (length (vma_map vm),
                vm\<lparr>vma_map := vma_map vm @
                   [\<lparr>vma_base = target, vma_size = sz, vma_backing = block,
                     vma_offset = offset, vma_state = st\<rparr>]\<rparr>))"

definition Reset :: "(u8 \<Rightarrow> VAddr \<times> VAddr \<times> VAddr) \<Rightarrow> u8 \<Rightarrow> VMManager \<Rightarrow> VMManager" where
  "Reset layout ty vm =
     (case layout ty of (code_base, tls_io_base, tls_io_end) \<Rightarrow>
        \<lparr>address_space_type = ty, code_region_base = code_base,
         tls_io_region_base = tls_io_base, tls_io_region_end = tls_io_end, vma_map = []\<rparr>)"

text \<open>
  Modelled from the spec: the handle table (\<^verbatim>\<open>handle_table.cpp\<close> is not under src/).
  A handle is never zero: the handle of an object is its position in the table, counted
  from one, and the table refuses an object once no such 32-bit handle is left. The
  spec sizes the table from the capability set and says nothing more about the size:
  \<open>HandleTable_SetSize\<close> records it and succeeds.
\<close>

definition HandleTable_Create :: "HandleTable \<Rightarrow> nat \<Rightarrow> ResultCode + (Handle \<times> HandleTable)" where
  "HandleTable_Create ht obj =
     (if Suc (length (objects ht)) < 2 ^ 32
      then Inr (of_nat (Suc (length (objects ht))), ht\<lparr>objects := objects ht @ [obj]\<rparr>)
      else Inl ERR_HANDLE_TABLE_FULL)"

definition HandleTable_SetSize :: "HandleTable \<Rightarrow> nat \<Rightarrow> ResultCode \<times> HandleTable" where
  "HandleTable_SetSize ht n = (RESULT_SUCCESS, ht\<lparr>table_size := n\<rparr>)"

section \<open>Thread-local storage slots\<close>

text \<open>
  \<^verbatim>\<open>std::bitset<8>\<close>: \<^verbatim>\<open>all\<close>, \<^verbatim>\<open>test\<close>, \<^verbatim>\<open>set\<close> and \<^verbatim>\<open>reset\<close>, for positions
  below 8.
\<close>

definition bitset_all :: "bitset8 \<Rightarrow> bool" where
  "bitset_all b = (b = - 1)"

definition bitset_test :: "bitset8 \<Rightarrow> nat \<Rightarrow> bool" where
  "bitset_test b pos = bit b pos"

definition bitset_set :: "bitset8 \<Rightarrow> nat \<Rightarrow> bitset8" where
  "bitset_set b pos = set_bit pos b"

definition bitset_reset :: "bitset8 \<Rightarrow> nat \<Rightarrow> bitset8" where
  "bitset_reset b pos = unset_bit pos b"

text \<open>
  \<^verbatim>\<open>FindFreeThreadLocalSlot\<close>: the outer loop runs over the pages from index \<open>page\<close> on,
  the inner loop over the slots 0 to 7 of a page that is not full.
\<close>

fun FindFreeThreadLocalSlot_from :: "nat \<Rightarrow> bitset8 list \<Rightarrow> nat \<times> nat \<times> bool" where
  "FindFreeThreadLocalSlot_from page [] = (0, 0, True)"
| "FindFreeThreadLocalSlot_from page (page_tls_slots # rest) =
     (if \<not> bitset_all page_tls_slots then
        (case find (\<lambda>slot. \<not> bitset_test page_tls_slots slot) [0..<8] of
           Some slot \<Rightarrow> (page, slot, False)
         | None \<Rightarrow> FindFreeThreadLocalSlot_from (Suc page) rest)
      else FindFreeThreadLocalSlot_from (Suc page) rest)"

definition FindFreeThreadLocalSlot :: "bitset8 list \<Rightarrow> nat \<times> nat \<times> bool" where
  "FindFreeThreadLocalSlot slots = FindFreeThreadLocalSlot_from 0 slots"

text \<open>
  \<^verbatim>\<open>Process::MarkNextAvailableTLSSlotAsUsed\<close>. \<^verbatim>\<open>Memory::TLS_ENTRY_SIZE\<close> is, like the
  page size, a constant of the missing \<^verbatim>\<open>core/memory.h\<close> and a parameter. The thread is
  passed by reference: the function returns the address, the process and the thread.
  \<^verbatim>\<open>RefreshMemoryBlockMappings\<close> renews the host pointers of the regions that the vector
  already backs and leaves the regions as they are. The result of \<^verbatim>\<open>MapMemoryBlock\<close> is
  discarded by the source: when the manager rejects the region, the function goes on.
\<close>

definition MarkNextAvailableTLSSlotAsUsed ::
  "u64 \<Rightarrow> u64 \<Rightarrow> Process \<Rightarrow> Thread \<Rightarrow> VAddr \<times> Process \<times> Thread" where
  "MarkNextAvailableTLSSlotAsUsed PAGE_SIZE TLS_ENTRY_SIZE p thread =
     (case FindFreeThreadLocalSlot (tls_slots p) of
        (found_page, found_slot, needs_allocation) \<Rightarrow>
          let tls_begin = tls_io_region_base (vm_manager p)
          in case (if needs_allocation then
                     let slots = tls_slots p @ [0];
                         available_page = length slots - 1;
                         available_slot = 0;
                         memory = tls_memory thread @ replicate (unat PAGE_SIZE) 0;
                         vm = (case MapMemoryBlock (vm_manager p)
                                      (tls_begin + of_nat available_page * PAGE_SIZE) memory 0
                                      PAGE_SIZE ThreadLocal of
                                 Inl e \<Rightarrow> vm_manager p
                               | Inr (vma, vm') \<Rightarrow> vm')
                     in (available_page, available_slot,
                         p\<lparr>tls_slots := slots, vm_manager := vm\<rparr>,
                         thread\<lparr>tls_memory := memory\<rparr>)
                   else (found_page, found_slot, p, thread)) of
               (available_page, available_slot, p1, thread1) \<Rightarrow>
                 (tls_begin + of_nat available_page * PAGE_SIZE
                    + of_nat available_slot * TLS_ENTRY_SIZE,
                  p1\<lparr>tls_slots := (tls_slots p1)
                       [available_page :=
                          bitset_set (tls_slots p1 ! available_page) available_slot]\<rparr>,
                  thread1))"

text \<open>
  \<^verbatim>\<open>Process::FreeTLSSlot\<close>. The source indexes \<^verbatim>\<open>tls_slots\<close> with \<^verbatim>\<open>operator[]\<close> and
  checks nothing before: a page index past the end is an unchecked access. The bitset
  checks the slot position itself.
\<close>

definition FreeTLSSlot :: "u64 \<Rightarrow> u64 \<Rightarrow> Process \<Rightarrow> VAddr \<Rightarrow> fault + Process" where
  "FreeTLSSlot PAGE_SIZE TLS_ENTRY_SIZE p tls_address =
     (let tls_base = tls_address - tls_io_region_base (vm_manager p);
          tls_page = tls_base div PAGE_SIZE;
          tls_slot = (tls_base mod PAGE_SIZE) div TLS_ENTRY_SIZE
      in if length (tls_slots p) \<le> unat tls_page then Inl UncheckedOutOfRange
         else if 8 \<le> unat tls_slot then Inl StdOutOfRange
         else Inr (p\<lparr>tls_slots := (tls_slots p)
                      [unat tls_page := bitset_reset (tls_slots p ! unat tls_page) (unat tls_slot)]\<rparr>))"

section \<open>Threads\<close>

text \<open>\<^verbatim>\<open>Process::RegisterThread\<close> and \<^verbatim>\<open>Process::UnregisterThread\<close>.\<close>

definition RegisterThread :: "Process \<Rightarrow> nat \<Rightarrow> Process" where
  "RegisterThread p thread = p\<lparr>thread_list := thread_list p @ [thread]\<rparr>"

definition UnregisterThread :: "Process \<Rightarrow> nat \<Rightarrow> Process" where
  "UnregisterThread p thread = p\<lparr>thread_list := removeAll thread (thread_list p)\<rparr>"

text \<open>
  Modelled from the spec: the thread operations (\<^verbatim>\<open>thread.cpp\<close> is not under src/).
  \<open>Thread_Create\<close> makes a dormant thread with the given entry point, priority, argument,
  core and stack top, all registers zero and no TLS memory, acquires a TLS slot for it
  from its owner (the spec: TLS slots are acquired by the thread-creation code paths),
  registers it in its owner's thread list and in the Global Scheduler's flat list, and
  returns the pointer to it. The source unwraps its result, so it can fail, but the spec
  names no rule by which it does: the check of its arguments is the parameter
  \<open>Thread_Create_check\<close> (priority, core and entry point to a result code), and the
  thread is made when the check succeeds. \<open>ResumeFromWait\<close> makes a thread runnable.
  \<open>Thread_Stop\<close> forcibly stops a thread.
\<close>

definition update_thread :: "nat \<Rightarrow> (Thread \<Rightarrow> Thread) \<Rightarrow> System \<Rightarrow> System" where
  "update_thread t f system =
     system\<lparr>thread_arena := (thread_arena system)[t := f (thread_arena system ! t)]\<rparr>"

definition Thread_Create ::
  "u64 \<Rightarrow> u64 \<Rightarrow> (u32 \<Rightarrow> u32 \<Rightarrow> VAddr \<Rightarrow> ResultCode)
     \<Rightarrow> System \<Rightarrow> string \<Rightarrow> VAddr \<Rightarrow> u32 \<Rightarrow> u64 \<Rightarrow> u32 \<Rightarrow> VAddr \<Rightarrow> nat \<Rightarrow> Process
     \<Rightarrow> ResultCode + (nat \<times> Process \<times> System)" where
  "Thread_Create PAGE_SIZE TLS_ENTRY_SIZE Thread_Create_check system nm entry prio a core stack
       owner_ptr owner =
     (if IsError (Thread_Create_check prio core entry)
      then Inl (Thread_Create_check prio core entry)
      else
        let thread = length (thread_arena system);
            obj = \<lparr>thr_name = nm, entry_point = entry, priority = prio, arg = a,
                   processor_id = core, stack_top = stack, owner_process = owner_ptr,
                   thr_status = ThreadStatus_Dormant, cpu_registers = replicate 31 0,
                   tls_memory = [], thr_tls_address = 0\<rparr>
        in case MarkNextAvailableTLSSlotAsUsed PAGE_SIZE TLS_ENTRY_SIZE owner obj of
             (addr, owner1, obj1) \<Rightarrow>
               Inr (thread, RegisterThread owner1 thread,
                    system\<lparr>thread_arena := thread_arena system @ [obj1\<lparr>thr_tls_address := addr\<rparr>],
                           global_thread_list := global_thread_list system @ [thread]\<rparr>))"

definition ResumeFromWait :: "nat \<Rightarrow> System \<Rightarrow> System" where
  "ResumeFromWait t system = update_thread t (\<lambda>th. th\<lparr>thr_status := ThreadStatus_Ready\<rparr>) system"

definition Thread_Stop :: "nat \<Rightarrow> System \<Rightarrow> System" where
  "Thread_Stop t system = update_thread t (\<lambda>th. th\<lparr>thr_status := ThreadStatus_Dead\<rparr>) system"

text \<open>
  Modelled from the spec: \<^verbatim>\<open>WaitObject::WakeupAllWaitingThreads\<close> (\<^verbatim>\<open>wait_object.cpp\<close>
  is not under src/) wakes every thread that waits on the object; none of them waits on
  it afterwards.
\<close>

definition WakeupAllWaitingThreads :: "Process \<Rightarrow> System \<Rightarrow> Process \<times> System" where
  "WakeupAllWaitingThreads p system =
     (p\<lparr>waiting_threads := []\<rparr>, fold ResumeFromWait (waiting_threads p) system)"

section \<open>Status changes, start and termination\<close>

text \<open>\<^verbatim>\<open>Process::ChangeStatus\<close>.\<close>

definition ChangeStatus :: "Process \<Rightarrow> ProcessStatus \<Rightarrow> System \<Rightarrow> Process \<times> System" where
  "ChangeStatus p new_status system =
     (if status p = new_status then (p, system)
      else WakeupAllWaitingThreads (p\<lparr>status := new_status, is_signaled := True\<rparr>) system)"

text \<open>
  \<^verbatim>\<open>SetupMainThread\<close> of the anonymous namespace. The handle, a \<^verbatim>\<open>u32\<close>, is widened to
  the 64-bit register. The page size, the slot size and the check of the thread's
  arguments are passed on to the modelled \<open>Thread_Create\<close>.
\<close>

definition SetupMainThread ::
  "u64 \<Rightarrow> u64 \<Rightarrow> (u32 \<Rightarrow> u32 \<Rightarrow> VAddr \<Rightarrow> ResultCode)
     \<Rightarrow> nat \<Rightarrow> Process \<Rightarrow> System \<Rightarrow> u32 \<Rightarrow> fault + (Process \<times> System)" where
  "SetupMainThread PAGE_SIZE TLS_ENTRY_SIZE Thread_Create_check owner_ptr owner system prio =
     (let entry = code_region_base (vm_manager owner);
          stack = tls_io_region_end (vm_manager owner)
      in case Unwrap (Thread_Create PAGE_SIZE TLS_ENTRY_SIZE Thread_Create_check system ''main''
                        entry prio 0 (ucast (ideal_core owner)) stack owner_ptr owner) of
           Inl f \<Rightarrow> Inl f
         | Inr (thread, owner1, system1) \<Rightarrow>
             (case Unwrap (HandleTable_Create (handle_table owner1) thread) of
                Inl f \<Rightarrow> Inl f
              | Inr (thread_handle, ht) \<Rightarrow>
                  Inr (owner1\<lparr>handle_table := ht\<rparr>,
                       ResumeFromWait thread
                         (update_thread thread
                            (\<lambda>th. th\<lparr>cpu_registers := (cpu_registers th)[1 := ucast thread_handle]\<rparr>)
                            system1))))"

text \<open>
  \<^verbatim>\<open>Process::Run\<close>. \<^verbatim>\<open>Memory::PAGE_SIZE\<close> is a constant of \<^verbatim>\<open>core/memory.h\<close>, which is
  not under src/: it is the parameter \<open>PAGE_SIZE\<close>. The backing of the stack is a new
  vector of \<open>main_thread_stack_size\<close> zero bytes; it is an argument of the call of
  \<^verbatim>\<open>MapMemoryBlock\<close> and so is constructed, or fails to be, before the region is
  requested and after the rounded size has been stored. \<^verbatim>\<open>LogLayout\<close> only writes to
  the log. The priority, an \<^verbatim>\<open>s32\<close>, is passed on as a \<^verbatim>\<open>u32\<close> with the same 32 bits.
\<close>

definition Run ::
  "u64 \<Rightarrow> u64 \<Rightarrow> nat \<Rightarrow> (nat \<Rightarrow> bool) \<Rightarrow> (u32 \<Rightarrow> u32 \<Rightarrow> VAddr \<Rightarrow> ResultCode)
     \<Rightarrow> nat \<Rightarrow> Process \<Rightarrow> System \<Rightarrow> s32 \<Rightarrow> u64 \<Rightarrow> fault + (Process \<times> System)" where
  "Run PAGE_SIZE TLS_ENTRY_SIZE vector_max_size host_allocates Thread_Create_check
       this p system main_thread_priority stack_size =
     (let p1 = p\<lparr>main_thread_stack_size := AlignUp stack_size PAGE_SIZE\<rparr>;
          mapping_address = tls_io_region_end (vm_manager p1) - main_thread_stack_size p1
      in case make_shared_vector vector_max_size host_allocates
                (unat (main_thread_stack_size p1)) of
           Inl f \<Rightarrow> Inl f
         | Inr block \<Rightarrow>
             (case Unwrap (MapMemoryBlock (vm_manager p1) mapping_address block 0
                             (main_thread_stack_size p1) Stack) of
                Inl f \<Rightarrow> Inl f
              | Inr (vma, vm) \<Rightarrow>
                  (case ChangeStatus (p1\<lparr>vm_manager := vm\<rparr>) Running system of
                     (p2, system1) \<Rightarrow>
                       SetupMainThread PAGE_SIZE TLS_ENTRY_SIZE Thread_Create_check
                         this p2 system1 main_thread_priority)))"

text \<open>
  \<^verbatim>\<open>Process::PrepareForTermination\<close>. \<open>stop_threads\<close> is its lambda, a loop over the
  thread list that ends at the first failed assertion.
\<close>

fun stop_threads :: "nat \<Rightarrow> nat list \<Rightarrow> System \<Rightarrow> fault + System" where
  "stop_threads this [] system = Inr system"
| "stop_threads this (thread # rest) system =
     (if owner_process (thread_arena system ! thread) \<noteq> this then stop_threads this rest system
      else if Some thread = current_thread system then stop_threads this rest system
      else if thr_status (thread_arena system ! thread) \<noteq> ThreadStatus_WaitSynch
        then Inl AssertionFailure
      else stop_threads this rest (Thread_Stop thread system))"

definition PrepareForTermination :: "nat \<Rightarrow> Process \<Rightarrow> System \<Rightarrow> fault + (Process \<times> System)" where
  "PrepareForTermination this p system =
     (case ChangeStatus p Exiting system of
        (p1, system1) \<Rightarrow>
          (case stop_threads this (global_thread_list system1) system1 of
             Inl f \<Rightarrow> Inl f
           | Inr system2 \<Rightarrow> Inr (ChangeStatus p1 Exited system2)))"

section \<open>Loading program metadata\<close>

record ProgramMetadata =
  title_id :: u64
  main_thread_core :: u8
  is_64bit_program :: bool
  md_address_space_type :: u8
  kernel_capabilities :: "u32 list"

text \<open>
  \<^verbatim>\<open>Process::LoadFromMetadata\<close>. The capability parser
  \<^verbatim>\<open>ProcessCapabilities::InitializeForUserProcess\<close> is not under src/ and the spec does
  not describe its rules: it is the parameter \<open>InitializeForUserProcess\<close>, which takes
  the capability set, the descriptors and the address space and gives a result code and
  the capability set it leaves.
\<close>

definition LoadFromMetadata ::
  "(u8 \<Rightarrow> VAddr \<times> VAddr \<times> VAddr)
     \<Rightarrow> (ProcessCapabilities \<Rightarrow> u32 list \<Rightarrow> VMManager \<Rightarrow> ResultCode \<times> ProcessCapabilities)
     \<Rightarrow> Process \<Rightarrow> ProgramMetadata \<Rightarrow> ResultCode \<times> Process" where
  "LoadFromMetadata layout InitializeForUserProcess p metadata =
     (let p1 = p\<lparr>program_id := title_id metadata,
                 ideal_core := main_thread_core metadata,
                 is_64bit_process := is_64bit_program metadata\<rparr>;
          p2 = p1\<lparr>vm_manager := Reset layout (md_address_space_type metadata) (vm_manager p1)\<rparr>
      in case InitializeForUserProcess (capabilities p2) (kernel_capabilities metadata)
                (vm_manager p2) of
           (capability_init_result, caps) \<Rightarrow>
             if IsError capability_init_result
             then (capability_init_result, p2\<lparr>capabilities := caps\<rparr>)
             else (case HandleTable_SetSize (handle_table p2) (handle_table_size caps) of
                     (r, ht) \<Rightarrow> (r, p2\<lparr>capabilities := caps, handle_table := ht\<rparr>)))"

section \<open>Example states\<close>

text \<open>
  Concrete states on which the theorems below are instantiated: an address space with
  its regions in the 32-bit range, a kernel that has created nothing yet, a stand-in for
  the generator, and the process that \<^verbatim>\<open>Process::Create\<close> makes from them.
\<close>

definition example_vm :: VMManager where
  "example_vm = \<lparr>address_space_type = 0, code_region_base = 0x8000000,
     tls_io_region_base = 0x10000000, tls_io_region_end = 0x20000000, vma_map = []\<rparr>"

definition example_system :: System where
  "example_system = \<lparr>rng_seed = None, next_process_id = 81, system_resource_limit = 0,
     process_list = [], thread_arena = [], global_thread_list = [], current_thread = None\<rparr>"

definition example_draw :: "u32 \<Rightarrow> nat \<Rightarrow> u64" where
  "example_draw seed i = ucast seed * 25214903917 + of_nat i"

definition example_process :: Process where
  "example_process = fst (snd (Create example_vm 4 example_draw example_system ''main''))"

definition example_thread :: Thread where
  "example_thread = \<lparr>thr_name = ''worker'', entry_point = 0x8000000, priority = 44, arg = 0,
     processor_id = 0, stack_top = 0x20000000, owner_process = 0,
     thr_status = ThreadStatus_Dormant, cpu_registers = replicate 31 0, tls_memory = [],
     thr_tls_address = 0\<rparr>"

text \<open>
  A process that allocated two TLS slots and then freed the first of them: slot 1 of
  page 0 is in use, slot 0 is free again.
\<close>

definition tls_two_allocated :: Process where
  "tls_two_allocated =
     fst (snd (MarkNextAvailableTLSSlotAsUsed 0x1000 0x200
       (fst (snd (MarkNextAvailableTLSSlotAsUsed 0x1000 0x200 example_process example_thread)))
       example_thread))"

definition tls_first_freed :: Process where
  "tls_first_freed =
     (case FreeTLSSlot 0x1000 0x200 tls_two_allocated 0x10000000 of
        Inr p \<Rightarrow> p | Inl f \<Rightarrow> tls_two_allocated)"

text \<open>
  A kernel with three threads: thread 0 belongs to process 0 and waits for
  synchronization, thread 1 belongs to process 0 and is the thread running on the calling
  core, thread 2 belongs to process 1 and waits.
\<close>

definition example_threads :: "Thread list" where
  "example_threads =
     [example_thread\<lparr>thr_status := ThreadStatus_WaitSynch\<rparr>,
      example_thread\<lparr>thr_status := ThreadStatus_Running\<rparr>,
      example_thread\<lparr>owner_process := 1, thr_status := ThreadStatus_WaitSynch\<rparr>]"

definition example_threads_system :: System where
  "example_threads_system =
     example_system\<lparr>process_list := [0, 1], thread_arena := example_threads,
       global_thread_list := [0, 1, 2], current_thread := Some 1\<rparr>"

text \<open>The kernel after \<^verbatim>\<open>Process::Create\<close> has made the example process.\<close>

definition example_created_system :: System where
  "example_created_system = snd (snd (Create example_vm 4 example_draw example_system ''main''))"

text \<open>
  Stand-ins for the platform parameters of \<^verbatim>\<open>Process::Run\<close>: vectors of at most
  \<open>2^63 - 1\<close> bytes, a host that grants up to 4 GiB at once, and a thread creation that
  accepts priorities below 64 on cores below 4.
\<close>

definition example_vector_max_size :: nat where
  "example_vector_max_size = 2 ^ 63 - 1"

definition example_host_allocates :: "nat \<Rightarrow> bool" where
  "example_host_allocates n = (n \<le> 2 ^ 32)"

definition example_thread_check :: "u32 \<Rightarrow> u32 \<Rightarrow> VAddr \<Rightarrow> ResultCode" where
  "example_thread_check prio core entry =
     (if 64 \<le> unat prio then ERR_OTHER 112 else if 4 \<le> unat core then ERR_OTHER 113
      else RESULT_SUCCESS)"

text \<open>
  The example process after \<^verbatim>\<open>Process::Run\<close> with a stack of one page, and a later
  state of it: its main thread, thread 0, runs on the calling core, and thread 1, a
  thread of process 1, waits on the process.
\<close>

definition example_started :: "Process \<times> System" where
  "example_started =
     projr (Run 0x1000 0x200 example_vector_max_size example_host_allocates example_thread_check 0 example_process example_created_system 44 0x1000)"

definition example_waited_process :: Process where
  "example_waited_process = (fst example_started)\<lparr>waiting_threads := [1]\<rparr>"

definition example_waited_system :: System where
  "example_waited_system =
     (snd example_started)
       \<lparr>thread_arena := thread_arena (snd example_started) @
          [example_thread\<lparr>owner_process := 1, thr_status := ThreadStatus_WaitSynch\<rparr>],
        global_thread_list := global_thread_list (snd example_started) @ [1],
        current_thread := Some 0\<rparr>"

text \<open>
  A layout table, a stand-in for the capability parser that rejects every descriptor
  but \<^verbatim>\<open>0xFFFFFFFF\<close>, and metadata of a 64-bit program with a malformed descriptor.
\<close>

definition example_layout :: "u8 \<Rightarrow> VAddr \<times> VAddr \<times> VAddr" where
  "example_layout ty = (0x8000000, 0x10000000, 0x20000000)"

definition example_capability_parser ::
  "ProcessCapabilities \<Rightarrow> u32 list \<Rightarrow> VMManager \<Rightarrow> ResultCode \<times> ProcessCapabilities" where
  "example_capability_parser c descriptors vm =
     (if list_all (\<lambda>d. d = 0xFFFFFFFF) descriptors
      then (RESULT_SUCCESS, \<lparr>metadataless = False, handle_table_size = 512\<rparr>)
      else (ERR_OTHER 14, c))"

definition example_metadata :: ProgramMetadata where
  "example_metadata = \<lparr>title_id = 0x0100000000010000, main_thread_core = 2,
     is_64bit_program = True, md_address_space_type = 3, kernel_capabilities = [0x1234]\<rparr>"

section \<open>Theorems\<close>

subsection \<open>Clearing the signal\<close>

lemma ClearSignalState_code:
  "fst (ClearSignalState p) = ERR_INVALID_STATE \<longleftrightarrow> status p = Exited \<or> \<not> is_signaled p"
  by (simp add: ClearSignalState_def)

lemma Create_fresh:
  "status (fst (snd (Create new_vm n draw system nm))) = Created
   \<and> \<not> is_signaled (fst (snd (Create new_vm n draw system nm)))"
  by (simp add: Create_def new_Process_def Let_def)

text \<open>
  C2. \<^verbatim>\<open>ClearSignalState\<close> returns the invalid-state error exactly when the process is
  Exited or is not signaled, and then leaves the process as it is; otherwise it returns
  success and clears \<open>is_signaled\<close>, changing nothing else. A process fresh from
  \<^verbatim>\<open>Process::Create\<close> is rejected. An Exited process is rejected whatever its signaled
  flag is, and since the rejected call changes nothing, every later call is rejected too.
\<close>

theorem ClearSignalState_spec:
  "(fst (ClearSignalState p) = ERR_INVALID_STATE \<longleftrightarrow> status p = Exited \<or> \<not> is_signaled p)
   \<and> (status p = Exited \<or> \<not> is_signaled p \<longrightarrow> snd (ClearSignalState p) = p)
   \<and> (\<not> (status p = Exited \<or> \<not> is_signaled p) \<longrightarrow>
        ClearSignalState p = (RESULT_SUCCESS, p\<lparr>is_signaled := False\<rparr>))
   \<and> fst (ClearSignalState (fst (snd (Create new_vm n draw system nm)))) = ERR_INVALID_STATE
   \<and> (status p = Exited \<longrightarrow>
        (\<forall>k. fst (ClearSignalState (((snd \<circ> ClearSignalState) ^^ k) (p\<lparr>is_signaled := b\<rparr>)))
               = ERR_INVALID_STATE))"
proof -
  have fresh: "fst (ClearSignalState (fst (snd (Create new_vm n draw system nm)))) = ERR_INVALID_STATE"
    using Create_fresh [of new_vm n draw system nm] by (simp add: ClearSignalState_code)
  have stay: "((snd \<circ> ClearSignalState) ^^ k) q = q" if "status q = Exited" for k q
    using that by (induction k) (simp_all add: ClearSignalState_def)
  have perm: "fst (ClearSignalState (((snd \<circ> ClearSignalState) ^^ k) (p\<lparr>is_signaled := b\<rparr>)))
               = ERR_INVALID_STATE" if "status p = Exited" for k
    using that stay [of "p\<lparr>is_signaled := b\<rparr>" k] by (simp add: ClearSignalState_def)
  show ?thesis
    using fresh perm by (simp add: ClearSignalState_def)
qed

theorem ClearSignalState_spec_witness:
  "status (example_process\<lparr>status := Exited, is_signaled := True\<rparr>) = Exited
   \<and> snd (ClearSignalState (example_process\<lparr>status := Exited, is_signaled := True\<rparr>))
       = example_process\<lparr>status := Exited, is_signaled := True\<rparr>
   \<and> (\<forall>k. fst (ClearSignalState (((snd \<circ> ClearSignalState) ^^ k)
          (example_process\<lparr>status := Exited, is_signaled := True\<rparr>))) = ERR_INVALID_STATE)
   \<and> \<not> (status (example_process\<lparr>status := Running, is_signaled := True\<rparr>) = Exited
          \<or> \<not> is_signaled (example_process\<lparr>status := Running, is_signaled := True\<rparr>))
   \<and> ClearSignalState (example_process\<lparr>status := Running, is_signaled := True\<rparr>)
       = (RESULT_SUCCESS, example_process\<lparr>status := Running, is_signaled := False\<rparr>)"
  using ClearSignalState_spec [of "example_process\<lparr>status := Exited, is_signaled := True\<rparr>"
          example_vm 4 example_draw example_system "''main''" True]
        ClearSignalState_spec [of "example_process\<lparr>status := Running, is_signaled := True\<rparr>"
          example_vm 4 example_draw example_system "''main''" True]
  by simp

subsection \<open>Allocation of thread-local storage slots\<close>

lemma bitset_all_iff: "bitset_all b \<longleftrightarrow> (\<forall>n<8. bit b n)"
proof
  assume "bitset_all b" then show "\<forall>n<8. bit b n" by (simp add: bitset_all_def)
next
  assume a: "\<forall>n<8. bit b n"
  have "b = - 1" by (rule bit_word_eqI) (use a in simp)
  then show "bitset_all b" by (simp add: bitset_all_def)
qed


lemma find_first_clear_unique:
  assumes "slot < 8" "\<not> bitset_test b slot" "\<forall>j. j < slot \<longrightarrow>  bitset_test b j"
  shows "find (\<lambda>s. \<not> bitset_test b s) [0..<8] = Some slot"
  unfolding find_Some_iff using assms
  by (intro exI [of _ slot]) (simp del: upt_Suc)


lemma FindFree_from_first:
  "page < length slots \<Longrightarrow> \<forall>j<page. bitset_all (slots ! j) \<Longrightarrow>
   find (\<lambda>s. \<not> bitset_test (slots ! page) s) [0..<8] = Some slot \<Longrightarrow>
   \<not> bitset_all (slots ! page) \<Longrightarrow>
   FindFreeThreadLocalSlot_from k slots = (k + page, slot, False)"
proof (induction slots arbitrary: k page)
  case Nil
  then show ?case by simp
next
  case (Cons b rest)
  show ?case
  proof (cases page)
    case 0
    with Cons.prems show ?thesis by (simp del: upt_Suc)
  next
    case (Suc n)
    with Cons.prems have full: "bitset_all b" by auto
    from Suc Cons.prems have "\<forall>j<n. bitset_all (rest ! j)" by auto
    with Suc Cons.prems Cons.IH [of n "Suc k"] full show ?thesis by (simp del: upt_Suc)
  qed
qed


lemma FindFree_first:
  assumes "page < length slots" "\<forall>j. j < page \<longrightarrow> bitset_all (slots ! j)" "slot < 8"
    "\<not> bitset_test (slots ! page) slot" "\<forall>j. j < slot \<longrightarrow> bitset_test (slots ! page) j"
  shows "FindFreeThreadLocalSlot slots = (page, slot, False)"
proof -
  from assms(3,4) have "\<not> bitset_all (slots ! page)"
    by (auto simp: bitset_all_iff bitset_test_def)
  with FindFree_from_first [of page slots slot 0] find_first_clear_unique [OF assms(3,4,5)] assms(1,2)
  show ?thesis by (simp add: FindFreeThreadLocalSlot_def)
qed



lemma all_less_2: "(\<forall>j. j < (2::nat) \<longrightarrow> P j) \<longleftrightarrow> P 0 \<and> P 1"
  by (auto simp: less_2_cases_iff)

lemma example_process_fields:
  "vm_manager example_process = example_vm" "tls_slots example_process = []"
  by (simp_all add: example_process_def Create_def new_Process_def Let_def)



subsection \<open>Freeing thread-local storage slots\<close>

lemma slot_offset_unat:
  fixes PAGE_SIZE TLS_ENTRY_SIZE :: u64
  assumes "n * unat PAGE_SIZE \<le> 2 ^ 64" "page < n" "slot * unat TLS_ENTRY_SIZE < unat PAGE_SIZE"
  shows "unat (of_nat page * PAGE_SIZE + of_nat slot * TLS_ENTRY_SIZE)
           = page * unat PAGE_SIZE + slot * unat TLS_ENTRY_SIZE"
proof -
  have "Suc page * unat PAGE_SIZE \<le> n * unat PAGE_SIZE"
    using assms(2) by (intro mult_le_mono1) simp
  with assms have lt: "page * unat PAGE_SIZE + slot * unat TLS_ENTRY_SIZE < 2 ^ 64" by simp
  have "of_nat page * PAGE_SIZE + of_nat slot * TLS_ENTRY_SIZE
          = (word_of_nat (page * unat PAGE_SIZE + slot * unat TLS_ENTRY_SIZE) :: u64)"
    by simp
  then show ?thesis using lt by (simp only: unat_of_nat) simp
qed

lemma FreeTLSSlot_in_page:
  fixes PAGE_SIZE TLS_ENTRY_SIZE :: u64
  assumes fit: "TLS_ENTRY_SIZE \<noteq> 0" "8 * unat TLS_ENTRY_SIZE \<le> unat PAGE_SIZE"
      "length (tls_slots p) * unat PAGE_SIZE \<le> 2 ^ 64"
    and pg: "page < length (tls_slots p)" "slot < 8"
  shows "FreeTLSSlot PAGE_SIZE TLS_ENTRY_SIZE p
           (tls_io_region_base (vm_manager p) + of_nat page * PAGE_SIZE + of_nat slot * TLS_ENTRY_SIZE)
         = Inr (p\<lparr>tls_slots := (tls_slots p)[page := bitset_reset (tls_slots p ! page) slot]\<rparr>)"
proof -
  from fit(1) have e: "0 < unat TLS_ENTRY_SIZE" by (simp add: unat_gt_0)
  from pg(2) have "slot * unat TLS_ENTRY_SIZE \<le> 7 * unat TLS_ENTRY_SIZE"
    by (intro mult_le_mono1) simp
  with e fit(2) have small: "slot * unat TLS_ENTRY_SIZE < unat PAGE_SIZE" by linarith
  let ?b = "of_nat page * PAGE_SIZE + of_nat slot * TLS_ENTRY_SIZE :: u64"
  have u: "unat ?b = page * unat PAGE_SIZE + slot * unat TLS_ENTRY_SIZE"
    by (rule slot_offset_unat [OF fit(3) pg(1) small])
  have d: "unat (?b div PAGE_SIZE) = page"
    using small by (simp add: unat_div u)
  have m: "unat ((?b mod PAGE_SIZE) div TLS_ENTRY_SIZE) = slot"
    using small e by (simp add: unat_div unat_mod u)
  have base: "tls_io_region_base (vm_manager p) + of_nat page * PAGE_SIZE + of_nat slot * TLS_ENTRY_SIZE
            - tls_io_region_base (vm_manager p) = ?b"
    by simp
  show ?thesis
    unfolding FreeTLSSlot_def Let_def base d m using pg by simp
qed

lemma MarkNext_found:
  assumes "FindFreeThreadLocalSlot (tls_slots p) = (page, slot, False)"
  shows "MarkNextAvailableTLSSlotAsUsed PAGE_SIZE TLS_ENTRY_SIZE p thread
          = (tls_io_region_base (vm_manager p) + of_nat page * PAGE_SIZE + of_nat slot * TLS_ENTRY_SIZE,
             p\<lparr>tls_slots := (tls_slots p)[page := bitset_set (tls_slots p ! page) slot]\<rparr>, thread)"
  using assms by (simp add: MarkNextAvailableTLSSlotAsUsed_def Let_def)

text \<open>
  C8, as amended. Let eight slots fit in a page, let the slot size be positive and let
  the pages of the process fit in the 64-bit offset range. For the address \<open>a\<close> of an
  allocated slot, \<^verbatim>\<open>FreeTLSSlot\<close> returns normally and only clears the bit of that slot:
  every other bit, the number of pages and the address space stay as they are. When no
  slot before \<open>a\<close> is free (all earlier pages are full and all lower slots of its page
  are in use), the next \<^verbatim>\<open>MarkNextAvailableTLSSlotAsUsed\<close> returns \<open>a\<close> again. Without
  that condition the claim fails: the allocation returns the first free slot, which may
  lie before \<open>a\<close>.
\<close>

theorem FreeTLSSlot_then_allocate:
  fixes PAGE_SIZE TLS_ENTRY_SIZE :: u64
  assumes "TLS_ENTRY_SIZE \<noteq> 0" "8 * unat TLS_ENTRY_SIZE \<le> unat PAGE_SIZE"
      "length (tls_slots p) * unat PAGE_SIZE \<le> 2 ^ 64"
    and "page < length (tls_slots p)" "slot < 8" "bitset_test (tls_slots p ! page) slot"
    and "a = tls_io_region_base (vm_manager p) + of_nat page * PAGE_SIZE + of_nat slot * TLS_ENTRY_SIZE"
  shows "(\<exists>p'. FreeTLSSlot PAGE_SIZE TLS_ENTRY_SIZE p a = Inr p'
            \<and> p' = p\<lparr>tls_slots := (tls_slots p)[page := bitset_reset (tls_slots p ! page) slot]\<rparr>
            \<and> length (tls_slots p') = length (tls_slots p)
            \<and> vm_manager p' = vm_manager p
            \<and> \<not> bitset_test (tls_slots p' ! page) slot
            \<and> (\<forall>i k. i < length (tls_slots p) \<and> (i \<noteq> page \<or> k \<noteq> slot) \<longrightarrow>
                  bitset_test (tls_slots p' ! i) k = bitset_test (tls_slots p ! i) k)
            \<and> ((\<forall>j. j < page \<longrightarrow> bitset_all (tls_slots p ! j))
                 \<and> (\<forall>j. j < slot \<longrightarrow> bitset_test (tls_slots p ! page) j)
               \<longrightarrow> fst (MarkNextAvailableTLSSlotAsUsed PAGE_SIZE TLS_ENTRY_SIZE p' thread) = a))"
proof -
  let ?p' = "p\<lparr>tls_slots := (tls_slots p)[page := bitset_reset (tls_slots p ! page) slot]\<rparr>"
  have free: "FreeTLSSlot PAGE_SIZE TLS_ENTRY_SIZE p a = Inr ?p'"
    unfolding assms(7) by (rule FreeTLSSlot_in_page [OF assms(1-5)])
  have clr: "\<not> bitset_test (tls_slots ?p' ! page) slot"
    using assms(4) by (simp add: bitset_test_def bitset_reset_def bit_simps)
  have others: "bitset_test (tls_slots ?p' ! i) k = bitset_test (tls_slots p ! i) k"
    if "i < length (tls_slots p)" "i \<noteq> page \<or> k \<noteq> slot" for i k
    using that assms(4)
    by (cases "i = page") (auto simp: bitset_test_def bitset_reset_def bit_simps)
  have again: "fst (MarkNextAvailableTLSSlotAsUsed PAGE_SIZE TLS_ENTRY_SIZE ?p' thread) = a"
    if before: "\<forall>j. j < page \<longrightarrow> bitset_all (tls_slots p ! j)"
       "\<forall>j. j < slot \<longrightarrow> bitset_test (tls_slots p ! page) j"
  proof -
    have "FindFreeThreadLocalSlot (tls_slots ?p') = (page, slot, False)"
    proof (rule FindFree_first)
      show "page < length (tls_slots ?p')" using assms(4) by simp
      show "\<forall>j. j < page \<longrightarrow> bitset_all (tls_slots ?p' ! j)" using before(1) by simp
      show "slot < 8" by (rule assms(5))
      show "\<not> bitset_test (tls_slots ?p' ! page) slot" by (rule clr)
      show "\<forall>j. j < slot \<longrightarrow> bitset_test (tls_slots ?p' ! page) j"
        using before(2) assms(4) by (simp add: bitset_test_def bitset_reset_def bit_simps)
    qed
    from MarkNext_found [OF this] show ?thesis by (simp add: assms(7))
  qed
  show ?thesis
    using free clr others again by (intro exI [of _ ?p']) simp
qed


lemma bitset_evals:
  "set_bit (Suc 0) (1 :: bitset8) = 3" "unset_bit (Suc 0) (2 :: bitset8) = 0"
  "unset_bit (Suc 0) (3 :: bitset8) = 1"
  by (simp_all add: set_bit_eq_or unset_bit_eq_and_not)

lemma tls_two_allocated_fields:
  "tls_slots tls_two_allocated = [3]"
  "tls_io_region_base (vm_manager tls_two_allocated) = 0x10000000"
  by (simp_all add: tls_two_allocated_def MarkNextAvailableTLSSlotAsUsed_def Let_def
        FindFreeThreadLocalSlot_def example_process_fields example_vm_def MapMemoryBlock_def
        bitset_all_def bitset_test_def bitset_set_def upt_rec bitset_evals split: sum.splits)

lemma tls_first_freed_fields:
  "tls_slots tls_first_freed = [2]"
  "tls_io_region_base (vm_manager tls_first_freed) = 0x10000000"
  by (simp_all add: tls_first_freed_def FreeTLSSlot_def Let_def tls_two_allocated_fields
        bitset_reset_def)

theorem FreeTLSSlot_then_allocate_counterexample:
  "tls_slots tls_first_freed = [2]
   \<and> bitset_test (tls_slots tls_first_freed ! 0) 1
   \<and> tls_io_region_base (vm_manager tls_first_freed) + 0 * 0x1000 + 1 * 0x200 = 0x10000200
   \<and> FreeTLSSlot 0x1000 0x200 tls_first_freed 0x10000200 = Inr (tls_first_freed\<lparr>tls_slots := [0]\<rparr>)
   \<and> fst (MarkNextAvailableTLSSlotAsUsed 0x1000 0x200 (tls_first_freed\<lparr>tls_slots := [0]\<rparr>)
             example_thread) = 0x10000000
   \<and> (0x10000000 :: u64) \<noteq> 0x10000200"
  by (simp add: tls_first_freed_fields FreeTLSSlot_def MarkNextAvailableTLSSlotAsUsed_def Let_def
        FindFreeThreadLocalSlot_def bitset_all_def bitset_test_def bitset_set_def bitset_reset_def
        upt_rec bitset_evals)

theorem FreeTLSSlot_then_allocate_witness:
  "(0x200 :: u64) \<noteq> 0 \<and> 8 * unat (0x200 :: u64) \<le> unat (0x1000 :: u64)
   \<and> length (tls_slots (example_process\<lparr>tls_slots := [255, 7]\<rparr>)) * unat (0x1000 :: u64) \<le> 2 ^ 64
   \<and> (1 :: nat) < length (tls_slots (example_process\<lparr>tls_slots := [255, 7]\<rparr>))
   \<and> bitset_test (tls_slots (example_process\<lparr>tls_slots := [255, 7]\<rparr>) ! 1) 2
   \<and> bitset_all (tls_slots (example_process\<lparr>tls_slots := [255, 7]\<rparr>) ! 0)
   \<and> bitset_test (tls_slots (example_process\<lparr>tls_slots := [255, 7]\<rparr>) ! 1) 0
   \<and> bitset_test (tls_slots (example_process\<lparr>tls_slots := [255, 7]\<rparr>) ! 1) 1
   \<and> FreeTLSSlot 0x1000 0x200 (example_process\<lparr>tls_slots := [255, 7]\<rparr>) 0x10001400
        = Inr (example_process\<lparr>tls_slots := [255, 3]\<rparr>)
   \<and> fst (MarkNextAvailableTLSSlotAsUsed 0x1000 0x200 (example_process\<lparr>tls_slots := [255, 3]\<rparr>)
             example_thread) = 0x10001400"
proof -
  let ?p = "example_process\<lparr>tls_slots := [255, 7]\<rparr>"
  have h: "(0x200 :: u64) \<noteq> 0" "8 * unat (0x200 :: u64) \<le> unat (0x1000 :: u64)"
    "length (tls_slots ?p) * unat (0x1000 :: u64) \<le> 2 ^ 64" "1 < length (tls_slots ?p)"
    "(2 :: nat) < 8" "bitset_test (tls_slots ?p ! 1) 2"
    "0x10001400 = tls_io_region_base (vm_manager ?p) + of_nat 1 * 0x1000 + of_nat 2 * 0x200"
    by (simp_all add: bitset_test_def example_process_fields example_vm_def)
  have b: "bitset_all (tls_slots ?p ! 0)" "bitset_test (tls_slots ?p ! 1) 0"
    "bitset_test (tls_slots ?p ! 1) 1"
    by (simp_all add: bitset_test_def bitset_all_def)
  from FreeTLSSlot_then_allocate [OF h, of example_thread] b
  have "FreeTLSSlot 0x1000 0x200 ?p 0x10001400 = Inr (example_process\<lparr>tls_slots := [255, 3]\<rparr>)
    \<and> fst (MarkNextAvailableTLSSlotAsUsed 0x1000 0x200 (example_process\<lparr>tls_slots := [255, 3]\<rparr>)
             example_thread) = 0x10001400"
    by (auto simp: all_less_2 bitset_reset_def)
  with h b show ?thesis by simp
qed

text \<open>
  C9, as amended. \<^verbatim>\<open>FreeTLSSlot\<close> checks nothing and asserts nothing. With an address
  whose page index is not below the number of allocated pages it indexes the page vector
  past its end, unchecked; it never ends in a failed assertion. With a page index below
  the number of pages (and a slot position below 8) it clears that bit and returns.
\<close>

theorem FreeTLSSlot_outside_pages:
  assumes "PAGE_SIZE \<noteq> 0" "TLS_ENTRY_SIZE \<noteq> 0"
  shows "(length (tls_slots p)
            \<le> unat ((a - tls_io_region_base (vm_manager p)) div PAGE_SIZE)
          \<longrightarrow> FreeTLSSlot PAGE_SIZE TLS_ENTRY_SIZE p a = Inl UncheckedOutOfRange)
       \<and> FreeTLSSlot PAGE_SIZE TLS_ENTRY_SIZE p a \<noteq> Inl AssertionFailure
       \<and> (unat ((a - tls_io_region_base (vm_manager p)) div PAGE_SIZE) < length (tls_slots p)
          \<and> unat (((a - tls_io_region_base (vm_manager p)) mod PAGE_SIZE) div TLS_ENTRY_SIZE) < 8
          \<longrightarrow> FreeTLSSlot PAGE_SIZE TLS_ENTRY_SIZE p a
               = Inr (p\<lparr>tls_slots := (tls_slots p)
                     [unat ((a - tls_io_region_base (vm_manager p)) div PAGE_SIZE) :=
                        bitset_reset
                          (tls_slots p ! unat ((a - tls_io_region_base (vm_manager p)) div PAGE_SIZE))
                          (unat (((a - tls_io_region_base (vm_manager p)) mod PAGE_SIZE)
                                   div TLS_ENTRY_SIZE))]\<rparr>))"
  by (simp add: FreeTLSSlot_def Let_def)

theorem FreeTLSSlot_outside_pages_counterexample:
  "length (tls_slots example_process)
     \<le> unat ((0x10000000 - tls_io_region_base (vm_manager example_process)) div 0x1000)
   \<and> FreeTLSSlot 0x1000 0x200 example_process 0x10000000 = Inl UncheckedOutOfRange
   \<and> FreeTLSSlot 0x1000 0x200 example_process 0x10000000 \<noteq> Inl AssertionFailure"
  by (simp add: FreeTLSSlot_def Let_def example_process_fields example_vm_def)

theorem FreeTLSSlot_outside_pages_witness:
  "(0x1000 :: u64) \<noteq> 0 \<and> (0x200 :: u64) \<noteq> 0
   \<and> length (tls_slots (example_process\<lparr>tls_slots := [255]\<rparr>))
       \<le> unat ((0x10003000 - tls_io_region_base (vm_manager (example_process\<lparr>tls_slots := [255]\<rparr>)))
                 div 0x1000)
   \<and> FreeTLSSlot 0x1000 0x200 (example_process\<lparr>tls_slots := [255]\<rparr>) 0x10003000
       = Inl UncheckedOutOfRange
   \<and> unat ((0x10000600 - tls_io_region_base (vm_manager (example_process\<lparr>tls_slots := [255]\<rparr>)))
                 div 0x1000) < length (tls_slots (example_process\<lparr>tls_slots := [255]\<rparr>))
   \<and> FreeTLSSlot 0x1000 0x200 (example_process\<lparr>tls_slots := [255]\<rparr>) 0x10000600
       = Inr (example_process\<lparr>tls_slots := [247]\<rparr>)"
proof -
  have nz: "(0x1000 :: u64) \<noteq> 0" "(0x200 :: u64) \<noteq> 0" by simp_all
  from FreeTLSSlot_outside_pages [OF nz, where p = "example_process\<lparr>tls_slots := [255]\<rparr>"
          and a = "0x10003000"]
       FreeTLSSlot_outside_pages [OF nz, where p = "example_process\<lparr>tls_slots := [255]\<rparr>"
          and a = "0x10000600"]
  show ?thesis
    by (simp add: example_process_fields example_vm_def bitset_reset_def)
qed

subsection \<open>Status changes and signaling\<close>

lemma update_thread_fields:
  "length (thread_arena (update_thread t f system)) = length (thread_arena system)"
  "global_thread_list (update_thread t f system) = global_thread_list system"
  "current_thread (update_thread t f system) = current_thread system"
  "process_list (update_thread t f system) = process_list system"
  by (simp_all add: update_thread_def)

lemma update_thread_nth:
  "k < length (thread_arena system) \<Longrightarrow>
     thread_arena (update_thread t f system) ! k
       = (if k = t then f (thread_arena system ! t) else thread_arena system ! k)"
  by (simp add: update_thread_def)

lemma fold_ResumeFromWait_fields:
  "length (thread_arena (fold ResumeFromWait ts system)) = length (thread_arena system)
   \<and> global_thread_list (fold ResumeFromWait ts system) = global_thread_list system
   \<and> current_thread (fold ResumeFromWait ts system) = current_thread system
   \<and> process_list (fold ResumeFromWait ts system) = process_list system"
  by (induction ts arbitrary: system) (simp_all add: ResumeFromWait_def update_thread_fields)

lemma fold_ResumeFromWait_nth:
  "k < length (thread_arena system) \<Longrightarrow>
     thread_arena (fold ResumeFromWait ts system) ! k
       = (if k \<in> set ts then (thread_arena system ! k)\<lparr>thr_status := ThreadStatus_Ready\<rparr>
          else thread_arena system ! k)"
proof (induction ts arbitrary: system)
  case Nil
  then show ?case by simp
next
  case (Cons t ts)
  have len: "k < length (thread_arena (ResumeFromWait t system))"
    using Cons.prems by (simp add: ResumeFromWait_def update_thread_fields)
  show ?case
    using Cons.IH [OF len] Cons.prems
    by (auto simp: ResumeFromWait_def update_thread_nth)
qed

text \<open>
  C4. A call of \<^verbatim>\<open>ChangeStatus\<close> that changes the status, whatever the new status is,
  leaves the process with the new status and signaled, and wakes every thread that
  waited on the process: each of them is runnable afterwards and none is left in the
  list of waiters; threads that did not wait are untouched. A call with the status the
  process already has changes nothing.
\<close>

theorem ChangeStatus_signals:
  assumes "ChangeStatus p new_status system = (p', system')"
  shows "(status p \<noteq> new_status \<longrightarrow>
            status p' = new_status \<and> is_signaled p' \<and> waiting_threads p' = []
            \<and> (\<forall>t\<in>set (waiting_threads p). t < length (thread_arena system) \<longrightarrow>
                  thr_status (thread_arena system' ! t) = ThreadStatus_Ready)
            \<and> length (thread_arena system') = length (thread_arena system)
            \<and> (\<forall>t. t < length (thread_arena system) \<and> t \<notin> set (waiting_threads p) \<longrightarrow>
                  thread_arena system' ! t = thread_arena system ! t))
       \<and> (status p = new_status \<longrightarrow> p' = p \<and> system' = system)"
  using assms
  by (auto simp: ChangeStatus_def WakeupAllWaitingThreads_def fold_ResumeFromWait_fields
        fold_ResumeFromWait_nth)


lemma example_process_status:
  "status example_process = Created" "waiting_threads example_process = []"
  "is_signaled example_process = False"
  by (simp_all add: example_process_def Create_def new_Process_def Let_def)

lemma example_threads_system_fields:
  "thread_arena example_threads_system = example_threads"
  "global_thread_list example_threads_system = [0, 1, 2]"
  "current_thread example_threads_system = Some 1"
  by (simp_all add: example_threads_system_def)

lemma example_threads_nth:
  "length example_threads = 3"
  "example_threads ! 0 = example_thread\<lparr>thr_status := ThreadStatus_WaitSynch\<rparr>"
  "example_threads ! Suc 0 = example_thread\<lparr>thr_status := ThreadStatus_Running\<rparr>"
  "example_threads ! 2 = example_thread\<lparr>owner_process := 1, thr_status := ThreadStatus_WaitSynch\<rparr>"
  by (simp_all add: example_threads_def numeral_2_eq_2)

theorem ChangeStatus_signals_witness:
  "status (example_process\<lparr>waiting_threads := [0, 2]\<rparr>) \<noteq> Exited
   \<and> status (fst (ChangeStatus (example_process\<lparr>waiting_threads := [0, 2]\<rparr>) Exited
                    example_threads_system)) = Exited
   \<and> is_signaled (fst (ChangeStatus (example_process\<lparr>waiting_threads := [0, 2]\<rparr>) Exited
                    example_threads_system))
   \<and> thr_status (thread_arena (snd (ChangeStatus (example_process\<lparr>waiting_threads := [0, 2]\<rparr>)
                    Exited example_threads_system)) ! 0) = ThreadStatus_Ready
   \<and> thr_status (thread_arena (snd (ChangeStatus (example_process\<lparr>waiting_threads := [0, 2]\<rparr>)
                    Exited example_threads_system)) ! 2) = ThreadStatus_Ready
   \<and> thread_arena (snd (ChangeStatus (example_process\<lparr>waiting_threads := [0, 2]\<rparr>)
                    Exited example_threads_system)) ! 1 = example_threads ! 1
   \<and> status (example_process\<lparr>waiting_threads := [0, 2]\<rparr>) = Created
   \<and> ChangeStatus (example_process\<lparr>waiting_threads := [0, 2]\<rparr>) Created example_threads_system
       = (example_process\<lparr>waiting_threads := [0, 2]\<rparr>, example_threads_system)"
proof -
  let ?p = "example_process\<lparr>waiting_threads := [0, 2]\<rparr>"
  have a: "ChangeStatus ?p Exited example_threads_system
           = (fst (ChangeStatus ?p Exited example_threads_system),
              snd (ChangeStatus ?p Exited example_threads_system))"
    and b: "ChangeStatus ?p Created example_threads_system
           = (fst (ChangeStatus ?p Created example_threads_system),
              snd (ChangeStatus ?p Created example_threads_system))"
    by simp_all
  from ChangeStatus_signals [OF a] ChangeStatus_signals [OF b]
  show ?thesis
    by (simp add: example_process_status example_threads_system_fields example_threads_nth
          prod_eq_iff)
qed

subsection \<open>Termination\<close>

lemma Thread_Stop_fields:
  "length (thread_arena (Thread_Stop t system)) = length (thread_arena system)"
  "global_thread_list (Thread_Stop t system) = global_thread_list system"
  "current_thread (Thread_Stop t system) = current_thread system"
  by (simp_all add: Thread_Stop_def update_thread_fields)

lemma Thread_Stop_nth:
  "k < length (thread_arena system) \<Longrightarrow>
     thread_arena (Thread_Stop t system) ! k
       = (if k = t then (thread_arena system ! t)\<lparr>thr_status := ThreadStatus_Dead\<rparr>
          else thread_arena system ! k)"
  by (simp add: Thread_Stop_def update_thread_nth)

lemma stop_threads_sweeps:
  assumes "distinct ts" "\<forall>t\<in>set ts. t < length (thread_arena system)"
    "\<forall>t\<in>set ts. owner_process (thread_arena system ! t) = this \<and> Some t \<noteq> current_thread system
        \<longrightarrow> thr_status (thread_arena system ! t) = ThreadStatus_WaitSynch"
  shows "\<exists>system2. stop_threads this ts system = Inr system2
     \<and> length (thread_arena system2) = length (thread_arena system)
     \<and> global_thread_list system2 = global_thread_list system
     \<and> current_thread system2 = current_thread system
     \<and> (\<forall>k. k < length (thread_arena system) \<longrightarrow>
          thread_arena system2 ! k
            = (if k \<in> set ts \<and> owner_process (thread_arena system ! k) = this
                  \<and> Some k \<noteq> current_thread system
               then (thread_arena system ! k)\<lparr>thr_status := ThreadStatus_Dead\<rparr>
               else thread_arena system ! k))"
  using assms
proof (induction ts arbitrary: system)
  case Nil
  then show ?case by simp
next
  case (Cons t ts)
  let ?swept = "owner_process (thread_arena system ! t) = this \<and> Some t \<noteq> current_thread system"
  show ?case
  proof (cases ?swept)
    case False
    from Cons.prems have "distinct ts" "\<forall>t\<in>set ts. t < length (thread_arena system)"
      "\<forall>t\<in>set ts. owner_process (thread_arena system ! t) = this \<and> Some t \<noteq> current_thread system
        \<longrightarrow> thr_status (thread_arena system ! t) = ThreadStatus_WaitSynch"
      by simp_all
    from Cons.IH [OF this] obtain system2 where s2: "stop_threads this ts system = Inr system2"
      "length (thread_arena system2) = length (thread_arena system)"
      "global_thread_list system2 = global_thread_list system"
      "current_thread system2 = current_thread system"
      "\<forall>k. k < length (thread_arena system) \<longrightarrow>
          thread_arena system2 ! k
            = (if k \<in> set ts \<and> owner_process (thread_arena system ! k) = this
                  \<and> Some k \<noteq> current_thread system
               then (thread_arena system ! k)\<lparr>thr_status := ThreadStatus_Dead\<rparr>
               else thread_arena system ! k)"
      by blast
    from False s2(1) have "stop_threads this (t # ts) system = Inr system2" by auto
    moreover from False s2(5) have "\<forall>k. k < length (thread_arena system) \<longrightarrow>
          thread_arena system2 ! k
            = (if k \<in> set (t # ts) \<and> owner_process (thread_arena system ! k) = this
                  \<and> Some k \<noteq> current_thread system
               then (thread_arena system ! k)\<lparr>thr_status := ThreadStatus_Dead\<rparr>
               else thread_arena system ! k)"
      by auto
    ultimately show ?thesis using s2(2-4) by blast
  next
    case True
    let ?s = "Thread_Stop t system"
    from Cons.prems have t: "t < length (thread_arena system)" "t \<notin> set ts" by simp_all
    have same: "thread_arena ?s ! k = thread_arena system ! k" if "k \<in> set ts" for k
      using that t Cons.prems(2) by (auto simp: Thread_Stop_nth)
    from Cons.prems same have "distinct ts" "\<forall>t\<in>set ts. t < length (thread_arena ?s)"
      "\<forall>t\<in>set ts. owner_process (thread_arena ?s ! t) = this \<and> Some t \<noteq> current_thread ?s
        \<longrightarrow> thr_status (thread_arena ?s ! t) = ThreadStatus_WaitSynch"
      by (simp_all add: Thread_Stop_fields)
    from Cons.IH [OF this] obtain system2 where s2: "stop_threads this ts ?s = Inr system2"
      "length (thread_arena system2) = length (thread_arena ?s)"
      "global_thread_list system2 = global_thread_list ?s"
      "current_thread system2 = current_thread ?s"
      "\<forall>k. k < length (thread_arena ?s) \<longrightarrow>
          thread_arena system2 ! k
            = (if k \<in> set ts \<and> owner_process (thread_arena ?s ! k) = this
                  \<and> Some k \<noteq> current_thread ?s
               then (thread_arena ?s ! k)\<lparr>thr_status := ThreadStatus_Dead\<rparr>
               else thread_arena ?s ! k)"
      by blast
    from True Cons.prems(3) have "thr_status (thread_arena system ! t) = ThreadStatus_WaitSynch"
      by simp
    with True s2(1) have r: "stop_threads this (t # ts) system = Inr system2" by auto
    have "thread_arena system2 ! k
            = (if k \<in> set (t # ts) \<and> owner_process (thread_arena system ! k) = this
                  \<and> Some k \<noteq> current_thread system
               then (thread_arena system ! k)\<lparr>thr_status := ThreadStatus_Dead\<rparr>
               else thread_arena system ! k)" if k: "k < length (thread_arena system)" for k
    proof (cases "k = t")
      case True
      with s2(5) t k \<open>?swept\<close> show ?thesis
        by (simp add: Thread_Stop_fields Thread_Stop_nth)
    next
      case False
      with s2(5) k show ?thesis
        by (simp add: Thread_Stop_fields Thread_Stop_nth)
    qed
    with r s2(2-4) show ?thesis by (simp add: Thread_Stop_fields)
  qed
qed

lemma stop_threads_asserts:
  assumes "distinct ts" "\<forall>t\<in>set ts. t < length (thread_arena system)"
    "\<exists>t\<in>set ts. owner_process (thread_arena system ! t) = this \<and> Some t \<noteq> current_thread system
        \<and> thr_status (thread_arena system ! t) \<noteq> ThreadStatus_WaitSynch"
  shows "stop_threads this ts system = Inl AssertionFailure"
  using assms
proof (induction ts arbitrary: system)
  case Nil
  then show ?case by simp
next
  case (Cons t ts)
  let ?swept = "owner_process (thread_arena system ! t) = this \<and> Some t \<noteq> current_thread system"
  show ?case
  proof (cases "?swept \<and> thr_status (thread_arena system ! t) \<noteq> ThreadStatus_WaitSynch")
    case True
    then show ?thesis by simp
  next
    case notbad: False
    with Cons.prems(3) have ex: "\<exists>t\<in>set ts. owner_process (thread_arena system ! t) = this
        \<and> Some t \<noteq> current_thread system
        \<and> thr_status (thread_arena system ! t) \<noteq> ThreadStatus_WaitSynch"
      by auto
    show ?thesis
    proof (cases ?swept)
      case False
      with Cons.IH [of system] Cons.prems(1,2) ex show ?thesis by auto
    next
      case True
      let ?s = "Thread_Stop t system"
      from Cons.prems have t: "t < length (thread_arena system)" "t \<notin> set ts" by simp_all
      have same: "thread_arena ?s ! k = thread_arena system ! k" if "k \<in> set ts" for k
        using that t Cons.prems(2) by (auto simp: Thread_Stop_nth)
      from Cons.prems same ex have "distinct ts" "\<forall>t\<in>set ts. t < length (thread_arena ?s)"
        "\<exists>t\<in>set ts. owner_process (thread_arena ?s ! t) = this \<and> Some t \<noteq> current_thread ?s
           \<and> thr_status (thread_arena ?s ! t) \<noteq> ThreadStatus_WaitSynch"
        by (simp_all add: Thread_Stop_fields)
      from Cons.IH [OF this] True notbad show ?thesis by auto
    qed
  qed
qed


lemma ChangeStatus_status: "status (fst (ChangeStatus p new_status system)) = new_status"
  by (simp add: ChangeStatus_def WakeupAllWaitingThreads_def)

lemma ChangeStatus_fields:
  "length (thread_arena (snd (ChangeStatus p new_status system))) = length (thread_arena system)"
  "global_thread_list (snd (ChangeStatus p new_status system)) = global_thread_list system"
  "current_thread (snd (ChangeStatus p new_status system)) = current_thread system"
  by (simp_all add: ChangeStatus_def WakeupAllWaitingThreads_def fold_ResumeFromWait_fields)

text \<open>
  C6. Let the Global Scheduler's thread list hold each thread once. \<^verbatim>\<open>PrepareForTermination\<close>
  first changes the status to Exiting. If every thread of the list that this process
  owns, the thread running on the calling core apart, waits for synchronization, each of
  them is stopped, every other thread (of another process, or the running one) is left
  as it is, and the status changes to Exited, which signals the process. If one of them
  does not wait for synchronization, the function ends in a failed assertion and not in
  a result.
\<close>

theorem PrepareForTermination_spec:
  assumes "distinct (global_thread_list system)"
    and "\<forall>t\<in>set (global_thread_list system). t < length (thread_arena system)"
    and "ChangeStatus p Exiting system = (p1, system1)"
  shows "status p1 = Exiting
     \<and> (if \<forall>t\<in>set (global_thread_list system1).
             owner_process (thread_arena system1 ! t) = this \<and> Some t \<noteq> current_thread system1
               \<longrightarrow> thr_status (thread_arena system1 ! t) = ThreadStatus_WaitSynch
        then \<exists>system2.
               stop_threads this (global_thread_list system1) system1 = Inr system2
             \<and> PrepareForTermination this p system = Inr (ChangeStatus p1 Exited system2)
             \<and> status (fst (ChangeStatus p1 Exited system2)) = Exited
             \<and> is_signaled (fst (ChangeStatus p1 Exited system2))
             \<and> length (thread_arena system2) = length (thread_arena system1)
             \<and> (\<forall>k. k < length (thread_arena system1) \<longrightarrow>
                  thread_arena system2 ! k
                    = (if k \<in> set (global_thread_list system1)
                          \<and> owner_process (thread_arena system1 ! k) = this
                          \<and> Some k \<noteq> current_thread system1
                       then (thread_arena system1 ! k)\<lparr>thr_status := ThreadStatus_Dead\<rparr>
                       else thread_arena system1 ! k))
        else PrepareForTermination this p system = Inl AssertionFailure)"
proof -
  from assms(3) have p1: "p1 = fst (ChangeStatus p Exiting system)"
    and s1: "system1 = snd (ChangeStatus p Exiting system)" by simp_all
  have st: "status p1 = Exiting" unfolding p1 by (rule ChangeStatus_status)
  have wf: "distinct (global_thread_list system1)"
    "\<forall>t\<in>set (global_thread_list system1). t < length (thread_arena system1)"
    using assms(1,2) unfolding s1 by (simp_all add: ChangeStatus_fields)
  let ?ok = "\<forall>t\<in>set (global_thread_list system1).
             owner_process (thread_arena system1 ! t) = this \<and> Some t \<noteq> current_thread system1
               \<longrightarrow> thr_status (thread_arena system1 ! t) = ThreadStatus_WaitSynch"
  show ?thesis
  proof (cases ?ok)
    case True
    from stop_threads_sweeps [OF wf True] obtain system2 where
      s2: "stop_threads this (global_thread_list system1) system1 = Inr system2"
        "length (thread_arena system2) = length (thread_arena system1)"
        "\<forall>k. k < length (thread_arena system1) \<longrightarrow>
          thread_arena system2 ! k
            = (if k \<in> set (global_thread_list system1)
                  \<and> owner_process (thread_arena system1 ! k) = this
                  \<and> Some k \<noteq> current_thread system1
               then (thread_arena system1 ! k)\<lparr>thr_status := ThreadStatus_Dead\<rparr>
               else thread_arena system1 ! k)"
      by blast
    have run: "PrepareForTermination this p system = Inr (ChangeStatus p1 Exited system2)"
      using assms(3) s2(1) by (simp add: PrepareForTermination_def)
    have sig: "is_signaled (fst (ChangeStatus p1 Exited system2))"
      using st by (simp add: ChangeStatus_def WakeupAllWaitingThreads_def)
    have "\<exists>system2.
               stop_threads this (global_thread_list system1) system1 = Inr system2
             \<and> PrepareForTermination this p system = Inr (ChangeStatus p1 Exited system2)
             \<and> status (fst (ChangeStatus p1 Exited system2)) = Exited
             \<and> is_signaled (fst (ChangeStatus p1 Exited system2))
             \<and> length (thread_arena system2) = length (thread_arena system1)
             \<and> (\<forall>k. k < length (thread_arena system1) \<longrightarrow>
                  thread_arena system2 ! k
                    = (if k \<in> set (global_thread_list system1)
                          \<and> owner_process (thread_arena system1 ! k) = this
                          \<and> Some k \<noteq> current_thread system1
                       then (thread_arena system1 ! k)\<lparr>thr_status := ThreadStatus_Dead\<rparr>
                       else thread_arena system1 ! k))"
      using s2 run sig ChangeStatus_status [of p1 Exited system2]
      by (intro exI [of _ system2]) simp
    with st show ?thesis unfolding if_P [OF True] by (rule conjI)
  next
    case False
    then have "\<exists>t\<in>set (global_thread_list system1).
             owner_process (thread_arena system1 ! t) = this \<and> Some t \<noteq> current_thread system1
               \<and> thr_status (thread_arena system1 ! t) \<noteq> ThreadStatus_WaitSynch"
      by blast
    from stop_threads_asserts [OF wf this] assms(3)
    have "PrepareForTermination this p system = Inl AssertionFailure"
      by (simp add: PrepareForTermination_def)
    with st show ?thesis unfolding if_not_P [OF False] by (rule conjI)
  qed
qed


theorem PrepareForTermination_spec_witness:
  "distinct (global_thread_list example_threads_system)
   \<and> list_all (\<lambda>t. t < length (thread_arena example_threads_system))
        (global_thread_list example_threads_system)
   \<and> PrepareForTermination 0 example_process example_threads_system
       = Inr (example_process\<lparr>status := Exited, is_signaled := True\<rparr>,
              example_threads_system\<lparr>thread_arena :=
                [example_thread\<lparr>thr_status := ThreadStatus_Dead\<rparr>,
                 example_thread\<lparr>thr_status := ThreadStatus_Running\<rparr>,
                 example_thread\<lparr>owner_process := 1, thr_status := ThreadStatus_WaitSynch\<rparr>]\<rparr>)
   \<and> distinct (global_thread_list (example_threads_system\<lparr>current_thread := None\<rparr>))
   \<and> PrepareForTermination 0 example_process (example_threads_system\<lparr>current_thread := None\<rparr>)
       = Inl AssertionFailure"
proof -
  let ?s = "example_threads_system"
  let ?n = "example_threads_system\<lparr>current_thread := None\<rparr>"
  let ?p1 = "example_process\<lparr>status := Exiting, is_signaled := True\<rparr>"
  have wf: "distinct (global_thread_list ?s)"
    "\<forall>t\<in>set (global_thread_list ?s). t < length (thread_arena ?s)"
    "distinct (global_thread_list ?n)"
    "\<forall>t\<in>set (global_thread_list ?n). t < length (thread_arena ?n)"
    by (simp_all add: example_threads_system_fields example_threads_nth)
  have c: "ChangeStatus example_process Exiting ?s = (?p1, ?s)"
    "ChangeStatus example_process Exiting ?n = (?p1, ?n)"
    by (simp_all add: ChangeStatus_def WakeupAllWaitingThreads_def example_process_status)
  have ow: "owner_process example_thread = 0"
    by (simp add: example_thread_def)
  have ev: "stop_threads 0 (global_thread_list ?s) ?s
              = Inr (?s\<lparr>thread_arena :=
                [example_thread\<lparr>thr_status := ThreadStatus_Dead\<rparr>,
                 example_thread\<lparr>thr_status := ThreadStatus_Running\<rparr>,
                 example_thread\<lparr>owner_process := 1, thr_status := ThreadStatus_WaitSynch\<rparr>]\<rparr>)"
    by (simp add: example_threads_system_fields example_threads_nth ow Thread_Stop_def
          update_thread_def) (simp add: example_threads_def)
  have quiet: "\<forall>t\<in>set (global_thread_list ?s).
             owner_process (thread_arena ?s ! t) = 0 \<and> Some t \<noteq> current_thread ?s
               \<longrightarrow> thr_status (thread_arena ?s ! t) = ThreadStatus_WaitSynch"
    by (simp add: example_threads_system_fields example_threads_nth ow)
  have busy: "\<not> (\<forall>t\<in>set (global_thread_list ?n).
             owner_process (thread_arena ?n ! t) = 0 \<and> Some t \<noteq> current_thread ?n
               \<longrightarrow> thr_status (thread_arena ?n ! t) = ThreadStatus_WaitSynch)"
    by (simp add: example_threads_system_fields example_threads_nth ow)
  from PrepareForTermination_spec [OF wf(1,2) c(1), of 0, unfolded if_P [OF quiet]]
  obtain system2 where s2: "stop_threads 0 (global_thread_list ?s) ?s = Inr system2"
    "PrepareForTermination 0 example_process ?s = Inr (ChangeStatus ?p1 Exited system2)"
    by blast
  from s2(1) ev have "system2 = ?s\<lparr>thread_arena :=
                [example_thread\<lparr>thr_status := ThreadStatus_Dead\<rparr>,
                 example_thread\<lparr>thr_status := ThreadStatus_Running\<rparr>,
                 example_thread\<lparr>owner_process := 1, thr_status := ThreadStatus_WaitSynch\<rparr>]\<rparr>"
    by (simp only: sum.inject)
  with s2(2)
  have ok: "PrepareForTermination 0 example_process ?s
       = Inr (example_process\<lparr>status := Exited, is_signaled := True\<rparr>,
              ?s\<lparr>thread_arena :=
                [example_thread\<lparr>thr_status := ThreadStatus_Dead\<rparr>,
                 example_thread\<lparr>thr_status := ThreadStatus_Running\<rparr>,
                 example_thread\<lparr>owner_process := 1, thr_status := ThreadStatus_WaitSynch\<rparr>]\<rparr>)"
    by (simp add: ChangeStatus_def WakeupAllWaitingThreads_def example_process_status)
  from PrepareForTermination_spec [OF wf(3,4) c(2), of 0, unfolded if_not_P [OF busy]]
  have bad: "PrepareForTermination 0 example_process ?n = Inl AssertionFailure"
    by (rule conjunct2)
  from wf ok bad show ?thesis by (simp add: list_all_iff)
qed

subsection \<open>Starting the process\<close>

lemma round_up_nat:
  fixes n s :: nat
  assumes "0 < s"
  shows "s dvd n + (s - n mod s) mod s" "n \<le> n + (s - n mod s) mod s"
    "n + (s - n mod s) mod s < n + s"
proof -
  show "s dvd n + (s - n mod s) mod s"
  proof (cases "n mod s = 0")
    case True
    then show ?thesis by (simp add: dvd_eq_mod_eq_0)
  next
    case False
    with assms have r: "0 < n mod s" "n mod s < s" by simp_all
    then have "(s - n mod s) mod s = s - n mod s" by simp
    moreover have "n + (s - n mod s) = s * (n div s) + s"
      using r by (metis add.assoc le_add_diff_inverse less_imp_le_nat mult_div_mod_eq)
    ultimately show ?thesis by simp
  qed
  show "n \<le> n + (s - n mod s) mod s" by simp
  show "n + (s - n mod s) mod s < n + s" using assms by simp
qed

lemma AlignUp_unat:
  assumes "sz \<noteq> 0" "unat v + unat sz \<le> 2 ^ 64"
  shows "unat (AlignUp v sz) = unat v + (unat sz - unat v mod unat sz) mod unat sz"
proof -
  from assms(1) have pos: "0 < unat sz" by (simp add: unat_gt_0)
  have le: "v mod sz \<le> sz"
    by (simp add: word_le_nat_alt unat_mod pos less_imp_le)
  have a: "unat ((sz - v mod sz) mod sz) = (unat sz - unat v mod unat sz) mod unat sz"
    by (simp add: unat_mod unat_sub le)
  have "(unat sz - unat v mod unat sz) mod unat sz < unat sz" using pos by simp
  with assms(2) have "unat v + unat ((sz - v mod sz) mod sz) < 2 ^ 64"
    unfolding a by linarith
  then have "unat (v + (sz - v mod sz) mod sz) = unat v + unat ((sz - v mod sz) mod sz)"
    by (simp add: unat_add_lem [THEN iffD1])
  then show ?thesis by (simp add: AlignUp_def a)
qed

lemma AlignUp_rounds:
  assumes "sz \<noteq> 0" "unat v + unat sz \<le> 2 ^ 64"
  shows "unat sz dvd unat (AlignUp v sz)" "unat v \<le> unat (AlignUp v sz)"
    "unat (AlignUp v sz) < unat v + unat sz"
proof -
  from assms(1) have pos: "0 < unat sz" by (simp add: unat_gt_0)
  note u = AlignUp_unat [OF assms]
  show "unat sz dvd unat (AlignUp v sz)" unfolding u by (rule round_up_nat(1) [OF pos])
  show "unat v \<le> unat (AlignUp v sz)" unfolding u by (rule round_up_nat(2) [OF pos])
  show "unat (AlignUp v sz) < unat v + unat sz" unfolding u by (rule round_up_nat(3) [OF pos])
qed


lemma ChangeStatus_keeps:
  "vm_manager (fst (ChangeStatus p new_status system)) = vm_manager p"
  "handle_table (fst (ChangeStatus p new_status system)) = handle_table p"
  "thread_list (fst (ChangeStatus p new_status system)) = thread_list p"
  "main_thread_stack_size (fst (ChangeStatus p new_status system)) = main_thread_stack_size p"
  "ideal_core (fst (ChangeStatus p new_status system)) = ideal_core p"
  "tls_slots (fst (ChangeStatus p new_status system)) = tls_slots p"
  by (simp_all add: ChangeStatus_def WakeupAllWaitingThreads_def)

lemma MarkNext_frame:
  "handle_table (fst (snd (MarkNextAvailableTLSSlotAsUsed PAGE_SIZE TLS_ENTRY_SIZE p th)))
     = handle_table p"
  "thread_list (fst (snd (MarkNextAvailableTLSSlotAsUsed PAGE_SIZE TLS_ENTRY_SIZE p th)))
     = thread_list p"
  "status (fst (snd (MarkNextAvailableTLSSlotAsUsed PAGE_SIZE TLS_ENTRY_SIZE p th))) = status p"
  "main_thread_stack_size (fst (snd (MarkNextAvailableTLSSlotAsUsed PAGE_SIZE TLS_ENTRY_SIZE p th)))
     = main_thread_stack_size p"
  "code_region_base (vm_manager (fst (snd (MarkNextAvailableTLSSlotAsUsed PAGE_SIZE TLS_ENTRY_SIZE p th))))
     = code_region_base (vm_manager p)"
  "tls_io_region_end (vm_manager (fst (snd (MarkNextAvailableTLSSlotAsUsed PAGE_SIZE TLS_ENTRY_SIZE p th))))
     = tls_io_region_end (vm_manager p)"
  by (simp_all add: MarkNextAvailableTLSSlotAsUsed_def Let_def MapMemoryBlock_def
        split: prod.splits sum.splits)

lemma MarkNext_thread:
  "snd (snd (MarkNextAvailableTLSSlotAsUsed PAGE_SIZE TLS_ENTRY_SIZE p th))
     = th\<lparr>tls_memory := tls_memory (snd (snd (MarkNextAvailableTLSSlotAsUsed PAGE_SIZE TLS_ENTRY_SIZE p th)))\<rparr>"
  by (simp add: MarkNextAvailableTLSSlotAsUsed_def Let_def split: prod.splits)

lemma MarkNext_regions:
  "\<exists>ext. vma_map (vm_manager (fst (snd (MarkNextAvailableTLSSlotAsUsed PAGE_SIZE TLS_ENTRY_SIZE p th))))
            = vma_map (vm_manager p) @ ext
         \<and> list_all (\<lambda>r. vma_state r = ThreadLocal) ext"
  by (simp add: MarkNextAvailableTLSSlotAsUsed_def Let_def MapMemoryBlock_def
        split: prod.splits sum.splits)

lemma Run_unfold:
  "Run PAGE_SIZE TLS_ENTRY_SIZE vector_max_size host_allocates Thread_Create_check
       this p system prio stack_size =
     (let sz = AlignUp stack_size PAGE_SIZE;
          region = \<lparr>vma_base = tls_io_region_end (vm_manager p) - sz, vma_size = sz,
                    vma_backing = replicate (unat sz) 0, vma_offset = 0, vma_state = Stack\<rparr>;
          c = ChangeStatus
                (p\<lparr>main_thread_stack_size := sz,
                   vm_manager := (vm_manager p)\<lparr>vma_map := vma_map (vm_manager p) @ [region]\<rparr>\<rparr>)
                Running system;
          thread = length (thread_arena system);
          m = MarkNextAvailableTLSSlotAsUsed PAGE_SIZE TLS_ENTRY_SIZE (fst c)
                \<lparr>thr_name = ''main'', entry_point = code_region_base (vm_manager p),
                  priority = prio, arg = 0, processor_id = ucast (ideal_core p),
                  stack_top = tls_io_region_end (vm_manager p), owner_process = this,
                  thr_status = ThreadStatus_Dormant, cpu_registers = replicate 31 0,
                  tls_memory = [], thr_tls_address = 0\<rparr>;
          h = (of_nat (Suc (length (objects (handle_table p)))) :: u32)
      in if vector_max_size < unat sz then Inl StdLengthError
         else if \<not> host_allocates (unat sz) then Inl StdBadAlloc
         else if 2 ^ 64 < unat (tls_io_region_end (vm_manager p) - sz) + unat sz
            \<or> list_ex (\<lambda>r. regions_intersect (tls_io_region_end (vm_manager p) - sz) sz
                         (vma_base r) (vma_size r)) (vma_map (vm_manager p))
            \<or> IsError (Thread_Create_check prio (ucast (ideal_core p))
                        (code_region_base (vm_manager p)))
            \<or> \<not> Suc (length (objects (handle_table p))) < 2 ^ 32
         then Inl AssertionFailure
         else Inr ((fst (snd m))\<lparr>thread_list := thread_list p @ [thread],
                     handle_table := (handle_table p)\<lparr>objects := objects (handle_table p) @ [thread]\<rparr>\<rparr>,
                   (snd c)\<lparr>thread_arena := thread_arena (snd c) @
                       [\<lparr>thr_name = ''main'', entry_point = code_region_base (vm_manager p),
                         priority = prio, arg = 0, processor_id = ucast (ideal_core p),
                         stack_top = tls_io_region_end (vm_manager p), owner_process = this,
                         thr_status = ThreadStatus_Ready,
                         cpu_registers = (replicate 31 0)[1 := ucast h],
                         tls_memory = tls_memory (snd (snd m)), thr_tls_address = fst m\<rparr>],
                     global_thread_list := global_thread_list system @ [thread]\<rparr>))"
proof -
  let ?sz = "AlignUp stack_size PAGE_SIZE"
  let ?c = "ChangeStatus
                (p\<lparr>main_thread_stack_size := ?sz,
                   vm_manager := (vm_manager p)\<lparr>vma_map := vma_map (vm_manager p) @
                     [\<lparr>vma_base = tls_io_region_end (vm_manager p) - ?sz, vma_size = ?sz,
                    vma_backing = replicate (unat ?sz) 0, vma_offset = 0, vma_state = Stack\<rparr>]\<rparr>\<rparr>)
                Running system"
  let ?obj = "\<lparr>thr_name = ''main'', entry_point = code_region_base (vm_manager p),
                  priority = prio, arg = 0, processor_id = ucast (ideal_core p),
                  stack_top = tls_io_region_end (vm_manager p), owner_process = this,
                  thr_status = ThreadStatus_Dormant, cpu_registers = replicate 31 0,
                  tls_memory = [], thr_tls_address = 0\<rparr>"
  let ?m = "MarkNextAvailableTLSSlotAsUsed PAGE_SIZE TLS_ENTRY_SIZE (fst ?c) ?obj"
  have th: "snd (snd ?m) = ?obj\<lparr>tls_memory := tls_memory (snd (snd ?m))\<rparr>"
    by (rule MarkNext_thread)
  have th': "(snd (snd ?m))\<lparr>thr_tls_address := a, cpu_registers := r, thr_status := s\<rparr>
     = \<lparr>thr_name = ''main'', entry_point = code_region_base (vm_manager p),
                  priority = prio, arg = 0, processor_id = ucast (ideal_core p),
                  stack_top = tls_io_region_end (vm_manager p), owner_process = this,
                  thr_status = s, cpu_registers = r,
                  tls_memory = tls_memory (snd (snd ?m)), thr_tls_address = a\<rparr>" for a r s
    by (subst th) simp
  have regs: "cpu_registers (snd (snd ?m)) = replicate 31 0"
    by (subst th) simp
  show ?thesis
    by (simp add: Run_def Let_def make_shared_vector_def MapMemoryBlock_def Unwrap_def
        SetupMainThread_def Thread_Create_def HandleTable_Create_def RegisterThread_def
        ResumeFromWait_def update_thread_def ChangeStatus_keeps ChangeStatus_fields
        case_prod_beta MarkNext_frame th' regs list_update_append nth_append)
qed


lemma handle_nonzero:
  assumes "Suc n < 2 ^ 32"
  shows "(of_nat (Suc n) :: u32) \<noteq> 0" "(ucast (of_nat (Suc n) :: u32) :: u64) \<noteq> 0"
proof -
  have "unat (of_nat (Suc n) :: u32) = Suc n"
    using assms by (simp only: unat_of_nat) simp
  then show nz: "(of_nat (Suc n) :: u32) \<noteq> 0" by (metis Zero_not_Suc unat_0)
  have "(ucast (ucast (of_nat (Suc n) :: u32) :: u64) :: u32) = of_nat (Suc n)"
    by (rule ucast_up_ucast_id) (simp add: is_up)
  with nz show "(ucast (of_nat (Suc n) :: u32) :: u64) \<noteq> 0" by auto
qed

text \<open>
  C3, as amended. Let the page size be positive and let the requested stack size be at
  most \<open>2^64\<close> minus the page size, so that rounding up stays within 64 bits. Whenever
  \<^verbatim>\<open>Run\<close> returns, the stack size it recorded is the request rounded up: a multiple
  of the page size, at least the request and less than one page above it; the address
  space has kept its regions and gained, next after them, a region of that size in state
  Stack, backed by zero bytes, at the TLS/IO region end minus that size, which lies
  within the address space and meets no region mapped before; any further new region is
  a ThreadLocal page of the new thread; the status is Running; exactly one thread was
  created and registered, with the code-region base as entry point and this process as
  owner; the handle table has given it a handle, which is not zero and which register 1
  holds; and the thread is runnable. \<^verbatim>\<open>Run\<close> does not always return: the construction
  of the backing vector throws \<^verbatim>\<open>std::length_error\<close> when the rounded size is above
  the maximal size of a vector, and \<^verbatim>\<open>std::bad_alloc\<close> when the host does not grant
  the memory; and when the address-space manager rejects the stack range, the thread
  creation rejects its arguments or no handle is left, an \<^verbatim>\<open>Unwrap\<close> fails its
  assertion. In every other case \<^verbatim>\<open>Run\<close> returns. Stated for every stack size the
  claim fails: no 64-bit multiple of the page size reaches a request of \<open>2^64 - 1\<close>,
  where the rounding wraps to 0, and a stack of \<open>2^63\<close> bytes is never mapped, because
  its backing cannot be constructed.
\<close>

theorem Run_spec:
  assumes "PAGE_SIZE \<noteq> 0" "unat stack_size + unat PAGE_SIZE \<le> 2 ^ 64"
  shows
   "(Run PAGE_SIZE TLS_ENTRY_SIZE vector_max_size host_allocates Thread_Create_check
         this p system prio stack_size = Inr (p', system') \<longrightarrow>
        unat PAGE_SIZE dvd unat (main_thread_stack_size p')
      \<and> unat stack_size \<le> unat (main_thread_stack_size p')
      \<and> unat (main_thread_stack_size p') < unat stack_size + unat PAGE_SIZE
      \<and> main_thread_stack_size p' = AlignUp stack_size PAGE_SIZE
      \<and> take (length (vma_map (vm_manager p))) (vma_map (vm_manager p')) = vma_map (vm_manager p)
      \<and> length (vma_map (vm_manager p)) < length (vma_map (vm_manager p'))
      \<and> vma_map (vm_manager p') ! length (vma_map (vm_manager p))
          = \<lparr>vma_base = tls_io_region_end (vm_manager p) - main_thread_stack_size p',
             vma_size = main_thread_stack_size p',
             vma_backing = replicate (unat (main_thread_stack_size p')) 0,
             vma_offset = 0, vma_state = Stack\<rparr>
      \<and> list_all (\<lambda>r. vma_state r = ThreadLocal)
           (drop (Suc (length (vma_map (vm_manager p)))) (vma_map (vm_manager p')))
      \<and> unat (tls_io_region_end (vm_manager p) - main_thread_stack_size p')
           + unat (main_thread_stack_size p') \<le> 2 ^ 64
      \<and> \<not> list_ex (\<lambda>r. regions_intersect
                (tls_io_region_end (vm_manager p) - main_thread_stack_size p')
                (main_thread_stack_size p') (vma_base r) (vma_size r)) (vma_map (vm_manager p))
      \<and> status p' = Running
      \<and> length (thread_arena system') = Suc (length (thread_arena system))
      \<and> thread_list p' = thread_list p @ [length (thread_arena system)]
      \<and> global_thread_list system' = global_thread_list system @ [length (thread_arena system)]
      \<and> entry_point (thread_arena system' ! length (thread_arena system))
          = code_region_base (vm_manager p)
      \<and> owner_process (thread_arena system' ! length (thread_arena system)) = this
      \<and> thr_status (thread_arena system' ! length (thread_arena system)) = ThreadStatus_Ready
      \<and> HandleTable_Create (handle_table p) (length (thread_arena system))
          = Inr (of_nat (Suc (length (objects (handle_table p)))), handle_table p')
      \<and> cpu_registers (thread_arena system' ! length (thread_arena system)) ! 1
          = ucast (of_nat (Suc (length (objects (handle_table p)))) :: u32)
      \<and> cpu_registers (thread_arena system' ! length (thread_arena system)) ! 1 \<noteq> 0
      \<and> objects (handle_table p') ! length (objects (handle_table p))
          = length (thread_arena system))
    \<and> (vector_max_size < unat (AlignUp stack_size PAGE_SIZE)
        \<longrightarrow> Run PAGE_SIZE TLS_ENTRY_SIZE vector_max_size host_allocates Thread_Create_check
              this p system prio stack_size = Inl StdLengthError)
    \<and> (unat (AlignUp stack_size PAGE_SIZE) \<le> vector_max_size
         \<and> \<not> host_allocates (unat (AlignUp stack_size PAGE_SIZE))
        \<longrightarrow> Run PAGE_SIZE TLS_ENTRY_SIZE vector_max_size host_allocates Thread_Create_check
              this p system prio stack_size = Inl StdBadAlloc)
    \<and> (unat (AlignUp stack_size PAGE_SIZE) \<le> vector_max_size
         \<and> host_allocates (unat (AlignUp stack_size PAGE_SIZE))
         \<and> (2 ^ 64 < unat (tls_io_region_end (vm_manager p) - AlignUp stack_size PAGE_SIZE)
                        + unat (AlignUp stack_size PAGE_SIZE)
            \<or> list_ex (\<lambda>r. regions_intersect
                  (tls_io_region_end (vm_manager p) - AlignUp stack_size PAGE_SIZE)
                  (AlignUp stack_size PAGE_SIZE) (vma_base r) (vma_size r)) (vma_map (vm_manager p))
            \<or> IsError (Thread_Create_check prio (ucast (ideal_core p))
                         (code_region_base (vm_manager p)))
            \<or> 2 ^ 32 \<le> Suc (length (objects (handle_table p))))
        \<longrightarrow> Run PAGE_SIZE TLS_ENTRY_SIZE vector_max_size host_allocates Thread_Create_check
              this p system prio stack_size = Inl AssertionFailure)
    \<and> (unat (AlignUp stack_size PAGE_SIZE) \<le> vector_max_size
         \<and> host_allocates (unat (AlignUp stack_size PAGE_SIZE))
         \<and> unat (tls_io_region_end (vm_manager p) - AlignUp stack_size PAGE_SIZE)
              + unat (AlignUp stack_size PAGE_SIZE) \<le> 2 ^ 64
         \<and> \<not> list_ex (\<lambda>r. regions_intersect
                  (tls_io_region_end (vm_manager p) - AlignUp stack_size PAGE_SIZE)
                  (AlignUp stack_size PAGE_SIZE) (vma_base r) (vma_size r)) (vma_map (vm_manager p))
         \<and> \<not> IsError (Thread_Create_check prio (ucast (ideal_core p))
                         (code_region_base (vm_manager p)))
         \<and> Suc (length (objects (handle_table p))) < 2 ^ 32
        \<longrightarrow> (\<exists>r. Run PAGE_SIZE TLS_ENTRY_SIZE vector_max_size host_allocates Thread_Create_check
                   this p system prio stack_size = Inr r))"
proof (intro conjI impI)
  assume r: "Run PAGE_SIZE TLS_ENTRY_SIZE vector_max_size host_allocates Thread_Create_check
         this p system prio stack_size = Inr (p', system')"
  let ?sz = "AlignUp stack_size PAGE_SIZE"
  let ?region = "\<lparr>vma_base = tls_io_region_end (vm_manager p) - ?sz, vma_size = ?sz,
                       vma_backing = replicate (unat ?sz) 0, vma_offset = 0,
                       vma_state = Stack\<rparr>"
  let ?c = "ChangeStatus
                (p\<lparr>main_thread_stack_size := ?sz,
                   vm_manager := (vm_manager p)\<lparr>vma_map := vma_map (vm_manager p) @ [?region]\<rparr>\<rparr>)
                Running system"
  let ?m = "MarkNextAvailableTLSSlotAsUsed PAGE_SIZE TLS_ENTRY_SIZE (fst ?c)
                \<lparr>thr_name = ''main'', entry_point = code_region_base (vm_manager p),
                  priority = prio, arg = 0, processor_id = ucast (ideal_core p),
                  stack_top = tls_io_region_end (vm_manager p), owner_process = this,
                  thr_status = ThreadStatus_Dormant, cpu_registers = replicate 31 0,
                  tls_memory = [], thr_tls_address = 0\<rparr>"
  from r have ht: "Suc (length (objects (handle_table p))) < 2 ^ 32"
    and nowrap: "\<not> 2 ^ 64 < unat (tls_io_region_end (vm_manager p) - ?sz) + unat ?sz"
    and free: "\<not> list_ex (\<lambda>r. regions_intersect (tls_io_region_end (vm_manager p) - ?sz) ?sz
                         (vma_base r) (vma_size r)) (vma_map (vm_manager p))"
    by (simp_all add: Run_unfold Let_def split: if_splits)
  from r have p': "p' = (fst (snd ?m))\<lparr>thread_list := thread_list p @ [length (thread_arena system)],
                     handle_table := (handle_table p)\<lparr>objects := objects (handle_table p)
                        @ [length (thread_arena system)]\<rparr>\<rparr>"
    and s': "system' = (snd ?c)\<lparr>thread_arena := thread_arena (snd ?c) @
                       [\<lparr>thr_name = ''main'', entry_point = code_region_base (vm_manager p),
                         priority = prio, arg = 0, processor_id = ucast (ideal_core p),
                         stack_top = tls_io_region_end (vm_manager p), owner_process = this,
                         thr_status = ThreadStatus_Ready,
                         cpu_registers = (replicate 31 0)
                           [1 := ucast (of_nat (Suc (length (objects (handle_table p)))) :: u32)],
                         tls_memory = tls_memory (snd (snd ?m)), thr_tls_address = fst ?m\<rparr>],
                     global_thread_list := global_thread_list system @ [length (thread_arena system)]\<rparr>"
    by (simp_all add: Run_unfold Let_def split: if_splits)
  show sz: "main_thread_stack_size p' = ?sz"
    unfolding p' by (simp add: MarkNext_frame ChangeStatus_keeps)
  show "unat PAGE_SIZE dvd unat (main_thread_stack_size p')"
    and "unat stack_size \<le> unat (main_thread_stack_size p')"
    and "unat (main_thread_stack_size p') < unat stack_size + unat PAGE_SIZE"
    unfolding sz by (rule AlignUp_rounds [OF assms])+
  obtain ext where ext: "vma_map (vm_manager (fst (snd ?m))) = vma_map (vm_manager (fst ?c)) @ ext"
    and tl: "list_all (\<lambda>r. vma_state r = ThreadLocal) ext"
    using MarkNext_regions by blast
  have regions: "vma_map (vm_manager p') = vma_map (vm_manager p) @ ?region # ext"
    unfolding p' by (simp add: ext ChangeStatus_keeps)
  show "take (length (vma_map (vm_manager p))) (vma_map (vm_manager p')) = vma_map (vm_manager p)"
    and "length (vma_map (vm_manager p)) < length (vma_map (vm_manager p'))"
    and "vma_map (vm_manager p') ! length (vma_map (vm_manager p))
          = \<lparr>vma_base = tls_io_region_end (vm_manager p) - main_thread_stack_size p',
             vma_size = main_thread_stack_size p',
             vma_backing = replicate (unat (main_thread_stack_size p')) 0,
             vma_offset = 0, vma_state = Stack\<rparr>"
    and "list_all (\<lambda>r. vma_state r = ThreadLocal)
           (drop (Suc (length (vma_map (vm_manager p)))) (vma_map (vm_manager p')))"
    unfolding sz regions using tl by simp_all
  from nowrap show "unat (tls_io_region_end (vm_manager p) - main_thread_stack_size p')
           + unat (main_thread_stack_size p') \<le> 2 ^ 64"
    unfolding sz by simp
  from free show "\<not> list_ex (\<lambda>r. regions_intersect
                (tls_io_region_end (vm_manager p) - main_thread_stack_size p')
                (main_thread_stack_size p') (vma_base r) (vma_size r)) (vma_map (vm_manager p))"
    unfolding sz .
  show "status p' = Running"
    unfolding p' by (simp add: MarkNext_frame ChangeStatus_status)
  have len: "length (thread_arena (snd ?c)) = length (thread_arena system)"
    by (rule ChangeStatus_fields)
  show "length (thread_arena system') = Suc (length (thread_arena system))"
    unfolding s' by (simp add: len)
  show "thread_list p' = thread_list p @ [length (thread_arena system)]"
    unfolding p' by simp
  show "global_thread_list system' = global_thread_list system @ [length (thread_arena system)]"
    unfolding s' by simp
  have new: "thread_arena system' ! length (thread_arena system)
      = \<lparr>thr_name = ''main'', entry_point = code_region_base (vm_manager p),
         priority = prio, arg = 0, processor_id = ucast (ideal_core p),
         stack_top = tls_io_region_end (vm_manager p), owner_process = this,
         thr_status = ThreadStatus_Ready,
         cpu_registers = (replicate 31 0)
           [1 := ucast (of_nat (Suc (length (objects (handle_table p)))) :: u32)],
         tls_memory = tls_memory (snd (snd ?m)), thr_tls_address = fst ?m\<rparr>"
    unfolding s' using len by (simp add: nth_append)
  show "entry_point (thread_arena system' ! length (thread_arena system))
          = code_region_base (vm_manager p)"
    and "owner_process (thread_arena system' ! length (thread_arena system)) = this"
    and "thr_status (thread_arena system' ! length (thread_arena system)) = ThreadStatus_Ready"
    and reg: "cpu_registers (thread_arena system' ! length (thread_arena system)) ! 1
          = ucast (of_nat (Suc (length (objects (handle_table p)))) :: u32)"
    unfolding new by simp_all
  show "cpu_registers (thread_arena system' ! length (thread_arena system)) ! 1 \<noteq> 0"
    unfolding reg by (rule handle_nonzero(2) [OF ht])
  show "HandleTable_Create (handle_table p) (length (thread_arena system))
          = Inr (of_nat (Suc (length (objects (handle_table p)))), handle_table p')"
    unfolding p' using ht by (simp add: HandleTable_Create_def)
  show "objects (handle_table p') ! length (objects (handle_table p))
          = length (thread_arena system)"
    unfolding p' by simp
next
  assume "vector_max_size < unat (AlignUp stack_size PAGE_SIZE)"
  then show "Run PAGE_SIZE TLS_ENTRY_SIZE vector_max_size host_allocates Thread_Create_check
              this p system prio stack_size = Inl StdLengthError"
    by (simp add: Run_unfold Let_def)
next
  assume "unat (AlignUp stack_size PAGE_SIZE) \<le> vector_max_size
         \<and> \<not> host_allocates (unat (AlignUp stack_size PAGE_SIZE))"
  then show "Run PAGE_SIZE TLS_ENTRY_SIZE vector_max_size host_allocates Thread_Create_check
              this p system prio stack_size = Inl StdBadAlloc"
    by (simp add: Run_unfold Let_def not_less [symmetric])
next
  assume "unat (AlignUp stack_size PAGE_SIZE) \<le> vector_max_size
         \<and> host_allocates (unat (AlignUp stack_size PAGE_SIZE))
         \<and> (2 ^ 64 < unat (tls_io_region_end (vm_manager p) - AlignUp stack_size PAGE_SIZE)
                        + unat (AlignUp stack_size PAGE_SIZE)
            \<or> list_ex (\<lambda>r. regions_intersect
                  (tls_io_region_end (vm_manager p) - AlignUp stack_size PAGE_SIZE)
                  (AlignUp stack_size PAGE_SIZE) (vma_base r) (vma_size r)) (vma_map (vm_manager p))
            \<or> IsError (Thread_Create_check prio (ucast (ideal_core p))
                         (code_region_base (vm_manager p)))
            \<or> 2 ^ 32 \<le> Suc (length (objects (handle_table p))))"
  then show "Run PAGE_SIZE TLS_ENTRY_SIZE vector_max_size host_allocates Thread_Create_check
              this p system prio stack_size = Inl AssertionFailure"
    by (auto simp add: Run_unfold Let_def)
next
  assume "unat (AlignUp stack_size PAGE_SIZE) \<le> vector_max_size
         \<and> host_allocates (unat (AlignUp stack_size PAGE_SIZE))
         \<and> unat (tls_io_region_end (vm_manager p) - AlignUp stack_size PAGE_SIZE)
              + unat (AlignUp stack_size PAGE_SIZE) \<le> 2 ^ 64
         \<and> \<not> list_ex (\<lambda>r. regions_intersect
                  (tls_io_region_end (vm_manager p) - AlignUp stack_size PAGE_SIZE)
                  (AlignUp stack_size PAGE_SIZE) (vma_base r) (vma_size r)) (vma_map (vm_manager p))
         \<and> \<not> IsError (Thread_Create_check prio (ucast (ideal_core p))
                         (code_region_base (vm_manager p)))
         \<and> Suc (length (objects (handle_table p))) < 2 ^ 32"
  then show "\<exists>r. Run PAGE_SIZE TLS_ENTRY_SIZE vector_max_size host_allocates Thread_Create_check
                   this p system prio stack_size = Inr r"
    by (simp add: Run_unfold Let_def)
qed


lemma example_created_system_fields:
  "thread_arena example_created_system = []" "global_thread_list example_created_system = []"
  "current_thread example_created_system = None"
  by (simp_all add: example_created_system_def Create_def Let_def example_system_def)

lemma example_process_tables:
  "objects (handle_table example_process) = []" "thread_list example_process = []"
  "vma_map (vm_manager example_process) = []"
  "tls_io_region_end (vm_manager example_process) = 0x20000000"
  "code_region_base (vm_manager example_process) = 0x8000000"
  "ideal_core example_process = 0"
  by (simp_all add: example_process_def Create_def new_Process_def Let_def example_vm_def)

lemma AlignUp_examples:
  "AlignUp 1 0x1000 = 0x1000" "AlignUp 0x1000 0x1000 = 0x1000" "AlignUp 0x1001 0x1000 = 0x2000"
  "AlignUp 0xFFFFFFFFFFFFFFFF 0x1000 = 0"
  "AlignUp 0x8000000000000000 0x1000 = 0x8000000000000000"
  "AlignUp 0x200000000 0x1000 = 0x200000000"
  by (simp_all add: AlignUp_def)

theorem Run_spec_counterexample:
  "map_sum id (main_thread_stack_size \<circ> fst)
       (Run 0x1000 0x200 example_vector_max_size example_host_allocates example_thread_check 0 example_process example_created_system 44 0xFFFFFFFFFFFFFFFF) = Inr 0
   \<and> \<not> unat (0xFFFFFFFFFFFFFFFF :: u64) \<le> unat (0 :: u64)
   \<and> Run 0x1000 0x200 example_vector_max_size example_host_allocates example_thread_check 0 example_process example_created_system 44 0x8000000000000000 = Inl StdLengthError
   \<and> Run 0x1000 0x200 example_vector_max_size example_host_allocates example_thread_check 0
         (example_process\<lparr>vm_manager := example_vm\<lparr>vma_map :=
            [\<lparr>vma_base = 0x1FFFE000, vma_size = 0x2000, vma_backing = [], vma_offset = 0,
              vma_state = Stack\<rparr>]\<rparr>\<rparr>)
         example_created_system 44 0x1000 = Inl AssertionFailure"
  by (simp add: Run_unfold Let_def AlignUp_examples example_process_tables ChangeStatus_keeps
        MarkNext_frame example_vector_max_size_def example_host_allocates_def example_thread_check_def IsError_def example_vm_def regions_intersect_def)

theorem Run_spec_witness:
  "(0x1000 :: u64) \<noteq> 0 \<and> unat (0x1001 :: u64) + unat (0x1000 :: u64) \<le> 2 ^ 64
   \<and> vma_map (vm_manager example_process) = []
   \<and> Suc (length (objects (handle_table example_process))) < 2 ^ 32
   \<and> \<not> isl (Run 0x1000 0x200 example_vector_max_size example_host_allocates example_thread_check 0 example_process example_created_system 44 0x1001)
   \<and> main_thread_stack_size (fst (projr (Run 0x1000 0x200 example_vector_max_size example_host_allocates example_thread_check 0 example_process example_created_system 44 0x1001)))
       = 0x2000
   \<and> unat (0x1000 :: u64) dvd unat (0x2000 :: u64) \<and> unat (0x1001 :: u64) \<le> unat (0x2000 :: u64)
   \<and> vma_map (vm_manager (fst (projr (Run 0x1000 0x200 example_vector_max_size example_host_allocates example_thread_check 0 example_process example_created_system 44 0x1001)))) ! 0
       = \<lparr>vma_base = 0x1FFFE000, vma_size = 0x2000, vma_backing = replicate (unat (0x2000 :: u64)) 0,
          vma_offset = 0, vma_state = Stack\<rparr>
   \<and> list_all (\<lambda>r. vma_state r = ThreadLocal)
        (drop 1 (vma_map (vm_manager (fst (projr (Run 0x1000 0x200 example_vector_max_size example_host_allocates example_thread_check 0 example_process example_created_system 44
           0x1001))))))
   \<and> status (fst (projr (Run 0x1000 0x200 example_vector_max_size example_host_allocates example_thread_check 0 example_process example_created_system 44 0x1001))) = Running
   \<and> length (thread_arena (snd (projr (Run 0x1000 0x200 example_vector_max_size example_host_allocates example_thread_check 0 example_process example_created_system 44 0x1001))))
       = 1
   \<and> thread_list (fst (projr (Run 0x1000 0x200 example_vector_max_size example_host_allocates example_thread_check 0 example_process example_created_system 44 0x1001))) = [0]
   \<and> entry_point (thread_arena (snd (projr (Run 0x1000 0x200 example_vector_max_size example_host_allocates example_thread_check 0 example_process example_created_system 44
         0x1001))) ! 0) = 0x8000000
   \<and> thr_status (thread_arena (snd (projr (Run 0x1000 0x200 example_vector_max_size example_host_allocates example_thread_check 0 example_process example_created_system 44
         0x1001))) ! 0) = ThreadStatus_Ready
   \<and> cpu_registers (thread_arena (snd (projr (Run 0x1000 0x200 example_vector_max_size example_host_allocates example_thread_check 0 example_process example_created_system 44
         0x1001))) ! 0) ! 1 = 1
   \<and> HandleTable_Create (handle_table example_process) 0
       = Inr (1, handle_table (fst (projr (Run 0x1000 0x200 example_vector_max_size example_host_allocates example_thread_check 0 example_process example_created_system 44 0x1001))))
   \<and> main_thread_stack_size (fst (projr (Run 0x1000 0x200 example_vector_max_size example_host_allocates example_thread_check 0 example_process example_created_system 44 1)))
       = 0x1000
   \<and> main_thread_stack_size (fst (projr (Run 0x1000 0x200 example_vector_max_size example_host_allocates example_thread_check 0 example_process example_created_system 44 0x1000)))
       = 0x1000
   \<and> example_vector_max_size < unat (AlignUp 0x8000000000000000 0x1000)
   \<and> Run 0x1000 0x200 example_vector_max_size example_host_allocates example_thread_check 0 example_process example_created_system 44 0x8000000000000000 = Inl StdLengthError
   \<and> \<not> example_host_allocates (unat (AlignUp 0x200000000 0x1000))
   \<and> Run 0x1000 0x200 example_vector_max_size example_host_allocates example_thread_check 0 example_process example_created_system 44 0x200000000 = Inl StdBadAlloc
   \<and> regions_intersect (0x20000000 - 0x1000) 0x1000 0x1FFFE000 0x2000
   \<and> Run 0x1000 0x200 example_vector_max_size example_host_allocates example_thread_check 0
         (example_process\<lparr>vm_manager := example_vm\<lparr>vma_map :=
            [\<lparr>vma_base = 0x1FFFE000, vma_size = 0x2000, vma_backing = [], vma_offset = 0,
              vma_state = Stack\<rparr>]\<rparr>\<rparr>)
         example_created_system 44 0x1000 = Inl AssertionFailure
   \<and> IsError (example_thread_check 64 (ucast (ideal_core example_process))
        (code_region_base (vm_manager example_process)))
   \<and> Run 0x1000 0x200 example_vector_max_size example_host_allocates example_thread_check 0 example_process example_created_system 64 0x1000 = Inl AssertionFailure"
proof -
  let ?R = "Run 0x1000 0x200 example_vector_max_size example_host_allocates example_thread_check 0 example_process example_created_system 44 0x1001"
  let ?q = "example_process\<lparr>vm_manager := example_vm\<lparr>vma_map :=
            [\<lparr>vma_base = 0x1FFFE000, vma_size = 0x2000, vma_backing = [], vma_offset = 0,
              vma_state = Stack\<rparr>]\<rparr>\<rparr>"
  have h: "(0x1000 :: u64) \<noteq> 0" "unat (0x1001 :: u64) + unat (0x1000 :: u64) \<le> 2 ^ 64"
    by simp_all
  have h2: "unat (0x1000 :: u64) + unat (0x1000 :: u64) \<le> 2 ^ 64" by simp
  have h3: "unat (0x8000000000000000 :: u64) + unat (0x1000 :: u64) \<le> 2 ^ 64" by simp
  have h4: "unat (0x200000000 :: u64) + unat (0x1000 :: u64) \<le> 2 ^ 64" by simp
  have too_long: "example_vector_max_size < unat (AlignUp 0x8000000000000000 0x1000)"
    by (simp add: AlignUp_examples example_vector_max_size_def example_host_allocates_def example_thread_check_def IsError_def)
  from Run_spec [where vector_max_size = example_vector_max_size and host_allocates = example_host_allocates and Thread_Create_check = example_thread_check, OF h(1) h3, THEN conjunct2, THEN conjunct1, rule_format, OF too_long]
  have length_error:
    "Run 0x1000 0x200 example_vector_max_size example_host_allocates example_thread_check 0 example_process example_created_system 44 0x8000000000000000 = Inl StdLengthError" .
  have no_memory: "unat (AlignUp 0x200000000 0x1000) \<le> example_vector_max_size
         \<and> \<not> example_host_allocates (unat (AlignUp 0x200000000 0x1000))"
    by (simp add: AlignUp_examples example_vector_max_size_def example_host_allocates_def example_thread_check_def IsError_def)
  from Run_spec [where vector_max_size = example_vector_max_size and host_allocates = example_host_allocates and Thread_Create_check = example_thread_check, OF h(1) h4, THEN conjunct2, THEN conjunct2, THEN conjunct1, rule_format,
      OF no_memory]
  have bad_alloc:
    "Run 0x1000 0x200 example_vector_max_size example_host_allocates example_thread_check 0 example_process example_created_system 44 0x200000000 = Inl StdBadAlloc" .
  have meets: "regions_intersect (0x20000000 - 0x1000) 0x1000 0x1FFFE000 0x2000"
    by (simp add: regions_intersect_def)
  then have taken: "unat (AlignUp 0x1000 0x1000) \<le> example_vector_max_size
         \<and> example_host_allocates (unat (AlignUp 0x1000 0x1000))
         \<and> (2 ^ 64 < unat (tls_io_region_end (vm_manager ?q) - AlignUp 0x1000 0x1000)
                        + unat (AlignUp 0x1000 0x1000)
            \<or> list_ex (\<lambda>r. regions_intersect
                  (tls_io_region_end (vm_manager ?q) - AlignUp 0x1000 0x1000)
                  (AlignUp 0x1000 0x1000) (vma_base r) (vma_size r)) (vma_map (vm_manager ?q))
            \<or> IsError (example_thread_check 44 (ucast (ideal_core ?q))
                         (code_region_base (vm_manager ?q)))
            \<or> 2 ^ 32 \<le> Suc (length (objects (handle_table ?q))))"
    by (simp add: AlignUp_examples example_vm_def example_vector_max_size_def example_host_allocates_def example_thread_check_def IsError_def)
  from Run_spec [where vector_max_size = example_vector_max_size and host_allocates = example_host_allocates and Thread_Create_check = example_thread_check, OF h(1) h2, THEN conjunct2, THEN conjunct2, THEN conjunct2, THEN conjunct1,
      rule_format, OF taken]
  have refused: "Run 0x1000 0x200 example_vector_max_size example_host_allocates example_thread_check 0 ?q example_created_system 44 0x1000 = Inl AssertionFailure" .
  have bad_prio: "IsError (example_thread_check 64 (ucast (ideal_core example_process))
        (code_region_base (vm_manager example_process)))"
    by (simp add: example_process_tables example_vector_max_size_def example_host_allocates_def example_thread_check_def IsError_def)
  then have rejected: "unat (AlignUp 0x1000 0x1000) \<le> example_vector_max_size
         \<and> example_host_allocates (unat (AlignUp 0x1000 0x1000))
         \<and> (2 ^ 64 < unat (tls_io_region_end (vm_manager example_process) - AlignUp 0x1000 0x1000)
                        + unat (AlignUp 0x1000 0x1000)
            \<or> list_ex (\<lambda>r. regions_intersect
                  (tls_io_region_end (vm_manager example_process) - AlignUp 0x1000 0x1000)
                  (AlignUp 0x1000 0x1000) (vma_base r) (vma_size r))
                  (vma_map (vm_manager example_process))
            \<or> IsError (example_thread_check 64 (ucast (ideal_core example_process))
                         (code_region_base (vm_manager example_process)))
            \<or> 2 ^ 32 \<le> Suc (length (objects (handle_table example_process))))"
    by (simp add: AlignUp_examples example_vector_max_size_def example_host_allocates_def example_thread_check_def IsError_def)
  from Run_spec [where vector_max_size = example_vector_max_size and host_allocates = example_host_allocates and Thread_Create_check = example_thread_check, OF h(1) h2, THEN conjunct2, THEN conjunct2, THEN conjunct2, THEN conjunct1,
      rule_format, OF rejected]
  have no_thread: "Run 0x1000 0x200 example_vector_max_size example_host_allocates example_thread_check 0 example_process example_created_system 64 0x1000 = Inl AssertionFailure" .
  have free: "unat (AlignUp 0x1001 0x1000) \<le> example_vector_max_size
         \<and> example_host_allocates (unat (AlignUp 0x1001 0x1000))
         \<and> unat (tls_io_region_end (vm_manager example_process) - AlignUp 0x1001 0x1000)
              + unat (AlignUp 0x1001 0x1000) \<le> 2 ^ 64
         \<and> \<not> list_ex (\<lambda>r. regions_intersect
                  (tls_io_region_end (vm_manager example_process) - AlignUp 0x1001 0x1000)
                  (AlignUp 0x1001 0x1000) (vma_base r) (vma_size r))
                  (vma_map (vm_manager example_process))
         \<and> \<not> IsError (example_thread_check 44 (ucast (ideal_core example_process))
                         (code_region_base (vm_manager example_process)))
         \<and> Suc (length (objects (handle_table example_process))) < 2 ^ 32"
    by (simp add: AlignUp_examples example_process_tables example_vector_max_size_def example_host_allocates_def example_thread_check_def IsError_def)
  from Run_spec [where vector_max_size = example_vector_max_size and host_allocates = example_host_allocates and Thread_Create_check = example_thread_check and TLS_ENTRY_SIZE = "0x200" and this = 0 and system = example_created_system and prio = 44, OF h, THEN conjunct2, THEN conjunct2, THEN conjunct2, THEN conjunct2,
      rule_format, OF free]
  obtain r where r: "?R = Inr r" by blast
  then have r': "?R = Inr (fst r, snd r)" and pr: "projr ?R = r" and nl: "\<not> isl ?R" by simp_all
  note facts = Run_spec [where vector_max_size = example_vector_max_size and host_allocates = example_host_allocates and Thread_Create_check = example_thread_check, OF h, THEN conjunct1, rule_format, OF r']
  have sizes:
    "main_thread_stack_size (fst (projr (Run 0x1000 0x200 example_vector_max_size example_host_allocates example_thread_check 0 example_process example_created_system 44 1)))
       = 0x1000"
    "main_thread_stack_size (fst (projr (Run 0x1000 0x200 example_vector_max_size example_host_allocates example_thread_check 0 example_process example_created_system 44 0x1000)))
       = 0x1000"
    by (simp_all add: Run_unfold Let_def AlignUp_examples example_process_tables ChangeStatus_keeps
          MarkNext_frame example_vector_max_size_def example_host_allocates_def example_thread_check_def IsError_def)
  from facts have
    "main_thread_stack_size (fst (projr ?R)) = 0x2000"
    "vma_map (vm_manager (fst (projr ?R))) ! 0
       = \<lparr>vma_base = 0x1FFFE000, vma_size = 0x2000, vma_backing = replicate (unat (0x2000 :: u64)) 0,
           vma_offset = 0, vma_state = Stack\<rparr>"
    "list_all (\<lambda>r. vma_state r = ThreadLocal) (drop 1 (vma_map (vm_manager (fst (projr ?R)))))"
    "status (fst (projr ?R)) = Running"
    "length (thread_arena (snd (projr ?R))) = 1"
    "thread_list (fst (projr ?R)) = [0]"
    "entry_point (thread_arena (snd (projr ?R)) ! 0) = 0x8000000"
    "thr_status (thread_arena (snd (projr ?R)) ! 0) = ThreadStatus_Ready"
    "cpu_registers (thread_arena (snd (projr ?R)) ! 0) ! 1 = 1"
    "HandleTable_Create (handle_table example_process) 0
       = Inr (1, handle_table (fst (projr ?R)))"
    unfolding pr
    by (simp_all add: example_process_tables example_created_system_fields AlignUp_examples)
  with h nl sizes meets refused too_long length_error no_memory bad_alloc bad_prio no_thread
  show ?thesis by (simp add: example_process_tables)
qed


subsection \<open>Order of the status changes\<close>

lemma Run_status:
  assumes "Run PAGE_SIZE TLS_ENTRY_SIZE vector_max_size host_allocates Thread_Create_check
             this p system prio stack_size = Inr (p', system')"
  shows "status p' = Running"
  using assms
  by (auto simp: Run_unfold Let_def ChangeStatus_status MarkNext_frame split: if_splits)

lemma Create_status:
  assumes "Create new_vm n draw system nm = (this, p0, system0)"
  shows "status p0 = Created"
  using assms by (auto simp: Create_def Let_def new_Process_def)

lemma stop_threads_returns:
  assumes "stop_threads this ts system = Inr system'" "t \<in> set ts"
    "t < length (thread_arena system)"
    "owner_process (thread_arena system ! t) = this" "Some t \<noteq> current_thread system"
  shows "thr_status (thread_arena system ! t) = ThreadStatus_WaitSynch"
  using assms
proof (induction ts arbitrary: system)
  case Nil
  then show ?case by simp
next
  case (Cons a ts)
  show ?case
  proof (cases "t = a")
    case True
    with Cons.prems show ?thesis by (auto split: if_splits)
  next
    case False
    with Cons.prems have mem: "t \<in> set ts" by simp
    show ?thesis
    proof (cases "owner_process (thread_arena system ! a) = this
                    \<and> Some a \<noteq> current_thread system")
      case skipped: False
      with Cons.prems have "stop_threads this ts system = Inr system'"
        by (auto split: if_splits)
      from Cons.IH [OF this mem Cons.prems(3,4,5)] show ?thesis .
    next
      case swept: True
      with Cons.prems have rest: "stop_threads this ts (Thread_Stop a system) = Inr system'"
        by (auto split: if_splits)
      have same: "thread_arena (Thread_Stop a system) ! t = thread_arena system ! t"
        using False Cons.prems(3) by (simp add: Thread_Stop_nth)
      have "thr_status (thread_arena (Thread_Stop a system) ! t) = ThreadStatus_WaitSynch"
        using Cons.prems(3,4,5)
        by (intro Cons.IH [OF rest mem]) (simp_all add: Thread_Stop_fields same)
      then show ?thesis by (simp add: same)
    qed
  qed
qed

text \<open>
  C5, as amended. Let \<^verbatim>\<open>Create\<close>, \<^verbatim>\<open>Run\<close> and \<^verbatim>\<open>PrepareForTermination\<close> be applied to
  one process once each, in this order, let each return, and let the status not change
  between \<^verbatim>\<open>Run\<close> and \<^verbatim>\<open>PrepareForTermination\<close> (the process \<open>q\<close> on which the latter
  is called has the status that \<^verbatim>\<open>Run\<close> left; its other members, among them the
  threads that wait on it, are arbitrary). Then the status is Created after \<^verbatim>\<open>Create\<close>
  and Running after \<^verbatim>\<open>Run\<close>, and \<^verbatim>\<open>PrepareForTermination\<close> goes through two status
  changes with the sweep over the threads between them: the first leaves the process
  \<open>p2\<close> with status Exiting, signaled and without waiters, and has woken every thread
  that waited on \<open>q\<close>; the sweep runs on the kernel state that this change left; the
  second takes \<open>p2\<close> to the status Exited, and its result is the result of the function.
  That the process is Exiting before the sweep shows in the result: a thread of this
  process that waited on it (and is not the running thread) has been made runnable by
  the first change, so the sweep does not find it waiting and fails; when the function
  returns, no such thread waited on the process. The operations do not look at the
  current status, so for other sequences the claim fails: \<^verbatim>\<open>PrepareForTermination\<close> on
  a Created process skips Running, and a second \<^verbatim>\<open>PrepareForTermination\<close> takes an
  Exited process back to Exiting.
\<close>

theorem lifecycle_status_order:
  assumes "Create new_vm n draw system nm = (this, p0, system0)"
    and "Run PAGE_SIZE TLS_ENTRY_SIZE vector_max_size host_allocates Thread_Create_check
           this p0 system_a prio stack_size = Inr (p1, system1)"
    and "status q = status p1"
    and "PrepareForTermination this q system_b = Inr (p3, system3)"
  shows "status p0 = Created \<and> status p1 = Running
     \<and> (\<exists>p2 system2 system2'.
           ChangeStatus q Exiting system_b = (p2, system2)
         \<and> status p2 = Exiting \<and> is_signaled p2 \<and> waiting_threads p2 = []
         \<and> p2 = q\<lparr>status := Exiting, is_signaled := True, waiting_threads := []\<rparr>
         \<and> system2 = fold ResumeFromWait (waiting_threads q) system_b
         \<and> stop_threads this (global_thread_list system2) system2 = Inr system2'
         \<and> ChangeStatus p2 Exited system2' = (p3, system3)
         \<and> p3 = p2\<lparr>status := Exited\<rparr> \<and> system3 = system2')
     \<and> status p3 = Exited
     \<and> list_all (\<lambda>t. \<not> (t \<in> set (global_thread_list system_b)
                          \<and> t < length (thread_arena system_b)
                          \<and> owner_process (thread_arena system_b ! t) = this
                          \<and> Some t \<noteq> current_thread system_b))
          (waiting_threads q)"
proof -
  have run: "status p1 = Running" by (rule Run_status [OF assms(2)])
  with assms(3) have q: "status q = Running" by simp
  let ?p2 = "q\<lparr>status := Exiting, is_signaled := True, waiting_threads := []\<rparr>"
  let ?s2 = "fold ResumeFromWait (waiting_threads q) system_b"
  have c1: "ChangeStatus q Exiting system_b = (?p2, ?s2)"
    using q by (simp add: ChangeStatus_def WakeupAllWaitingThreads_def)
  from assms(4) obtain system2' where
    sweep: "stop_threads this (global_thread_list ?s2) ?s2 = Inr system2'"
    and fin: "ChangeStatus ?p2 Exited system2' = (p3, system3)"
    unfolding PrepareForTermination_def c1 by (auto split: sum.splits)
  from fin have p3: "p3 = ?p2\<lparr>status := Exited\<rparr>" and s3: "system3 = system2'"
    by (auto simp: ChangeStatus_def WakeupAllWaitingThreads_def)
  have woken: "list_all (\<lambda>t. \<not> (t \<in> set (global_thread_list system_b)
                          \<and> t < length (thread_arena system_b)
                          \<and> owner_process (thread_arena system_b ! t) = this
                          \<and> Some t \<noteq> current_thread system_b))
          (waiting_threads q)"
    unfolding list_all_iff
  proof (intro ballI notI)
    fix t
    assume w: "t \<in> set (waiting_threads q)"
      and t: "t \<in> set (global_thread_list system_b)
                          \<and> t < length (thread_arena system_b)
                          \<and> owner_process (thread_arena system_b ! t) = this
                          \<and> Some t \<noteq> current_thread system_b"
    have nth: "thread_arena ?s2 ! t = (thread_arena system_b ! t)\<lparr>thr_status := ThreadStatus_Ready\<rparr>"
      using t w by (simp add: fold_ResumeFromWait_nth)
    have "thr_status (thread_arena ?s2 ! t) = ThreadStatus_WaitSynch"
      using t by (intro stop_threads_returns [OF sweep]) (simp_all add: fold_ResumeFromWait_fields nth)
    with nth show False by simp
  qed
  from Create_status [OF assms(1)] run c1 sweep fin p3 s3 woken show ?thesis
    by (intro conjI exI [of _ ?p2] exI [of _ ?s2] exI [of _ system2']) simp_all
qed


theorem lifecycle_status_order_counterexample:
  "Create example_vm 4 example_draw example_system ''main''
     = (0, example_process, example_created_system)
   \<and> status example_process = Created
   \<and> status (fst (ChangeStatus example_process Exiting example_created_system)) = Exiting
   \<and> PrepareForTermination 0 example_process example_created_system
       = Inr (example_process\<lparr>status := Exited, is_signaled := True\<rparr>, example_created_system)
   \<and> status (fst (ChangeStatus (example_process\<lparr>status := Exited, is_signaled := True\<rparr>) Exiting
                    example_created_system)) = Exiting
   \<and> PrepareForTermination 0 (example_process\<lparr>status := Exited, is_signaled := True\<rparr>)
         example_created_system
       = Inr (example_process\<lparr>status := Exited, is_signaled := True\<rparr>, example_created_system)"
proof -
  have c: "Create example_vm 4 example_draw example_system ''main''
     = (0, example_process, example_created_system)"
    by (simp add: example_process_def example_created_system_def prod_eq_iff)
       (simp add: Create_def Let_def example_system_def)
  show ?thesis
    by (simp add: c ChangeStatus_status PrepareForTermination_def ChangeStatus_def
          WakeupAllWaitingThreads_def example_process_status example_created_system_fields)
qed

lemma example_started_fields:
  "status (fst example_started) = Running"
  "length (thread_arena (snd example_started)) = 1"
  "owner_process (thread_arena (snd example_started) ! 0) = 0"
  "global_thread_list (snd example_started) = [0]"
  by (simp_all add: example_started_def Run_unfold Let_def AlignUp_examples example_process_tables
        ChangeStatus_keeps ChangeStatus_status ChangeStatus_fields MarkNext_frame
        example_created_system_fields ChangeStatus_def WakeupAllWaitingThreads_def
        example_process_status
        example_vector_max_size_def example_host_allocates_def example_thread_check_def IsError_def)

theorem lifecycle_status_order_witness:
  "Create example_vm 4 example_draw example_system ''main''
     = (0, example_process, example_created_system)
   \<and> Run 0x1000 0x200 example_vector_max_size example_host_allocates example_thread_check 0 example_process example_created_system 44 0x1000 = Inr example_started
   \<and> status example_waited_process = status (fst example_started)
   \<and> waiting_threads example_waited_process = [1]
   \<and> \<not> isl (PrepareForTermination 0 example_waited_process example_waited_system)
   \<and> status example_process = Created
   \<and> status (fst example_started) = Running
   \<and> status (fst (ChangeStatus example_waited_process Exiting example_waited_system)) = Exiting
   \<and> thr_status (thread_arena example_waited_system ! 1) = ThreadStatus_WaitSynch
   \<and> thr_status (thread_arena
        (snd (ChangeStatus example_waited_process Exiting example_waited_system)) ! 1)
       = ThreadStatus_Ready
   \<and> status (fst (projr (PrepareForTermination 0 example_waited_process example_waited_system)))
       = Exited
   \<and> owner_process (thread_arena example_waited_system ! 1) \<noteq> 0"
proof -
  let ?R = "Run 0x1000 0x200 example_vector_max_size example_host_allocates example_thread_check 0 example_process example_created_system 44 0x1000"
  let ?T = "PrepareForTermination 0 example_waited_process example_waited_system"
  have c: "Create example_vm 4 example_draw example_system ''main''
     = (0, example_process, example_created_system)"
    by (simp add: example_process_def example_created_system_def prod_eq_iff)
       (simp add: Create_def Let_def example_system_def)
  have run: "\<not> isl ?R"
    by (simp add: Run_unfold Let_def AlignUp_examples example_process_tables
        example_vector_max_size_def example_host_allocates_def example_thread_check_def IsError_def)
  then have r: "?R = Inr (fst example_started, snd example_started)"
    unfolding example_started_def by (cases ?R) simp_all
  have same: "status example_waited_process = status (fst example_started)"
    "waiting_threads example_waited_process = [1]"
    by (simp_all add: example_waited_process_def)
  have arena: "thread_arena example_waited_system
      = [thread_arena (snd example_started) ! 0,
         example_thread\<lparr>owner_process := 1, thr_status := ThreadStatus_WaitSynch\<rparr>]"
    using example_started_fields(2)
    by (cases "thread_arena (snd example_started)") (simp_all add: example_waited_system_def)
  have sys: "global_thread_list example_waited_system = [0, 1]"
    "current_thread example_waited_system = Some 0"
    by (simp_all add: example_waited_system_def example_started_fields)
  have fin: "\<not> isl ?T"
    by (simp add: PrepareForTermination_def ChangeStatus_def WakeupAllWaitingThreads_def
          same example_started_fields ResumeFromWait_def update_thread_def arena sys
          example_thread_def)
  then have t: "?T = Inr (fst (projr ?T), snd (projr ?T))" by (cases ?T) simp_all
  have waiter: "thr_status (thread_arena example_waited_system ! 1) = ThreadStatus_WaitSynch"
    "owner_process (thread_arena example_waited_system ! 1) \<noteq> 0"
    by (simp_all add: arena example_thread_def)
  from lifecycle_status_order [OF c r same(1) t] obtain p2 system2 system2' where
    "status example_process = Created" "status (fst example_started) = Running"
    "ChangeStatus example_waited_process Exiting example_waited_system = (p2, system2)"
    "status p2 = Exiting"
    "system2 = fold ResumeFromWait (waiting_threads example_waited_process) example_waited_system"
    "status (fst (projr ?T)) = Exited"
    by blast
  with c r same fin waiter show ?thesis
    by (simp add: ResumeFromWait_def update_thread_def arena)
qed

subsection \<open>Entropy of a new process\<close>

text \<open>
  C7. With a configured seed the entropy buffer of \<^verbatim>\<open>Process::Create\<close> is the sequence
  that the generator draws from that seed, whatever the rest of the system is. With no
  seed configured the source takes \<^verbatim>\<open>rng_seed.value_or(0)\<close>: the buffer is the sequence
  of seed 0, the same on every creation and the same as under a configured seed of 0,
  and no random source is consulted.
\<close>

theorem Create_entropy_unseeded:
  "random_entropy (fst (snd (Create new_vm n draw (system\<lparr>rng_seed := None\<rparr>) nm)))
     = map (draw 0) [0..<n]
   \<and> random_entropy (fst (snd (Create new_vm n draw (system\<lparr>rng_seed := Some seed\<rparr>) nm)))
     = map (draw seed) [0..<n]
   \<and> random_entropy (fst (snd (Create new_vm n draw (system\<lparr>rng_seed := None\<rparr>) nm)))
     = random_entropy (fst (snd (Create new_vm' n draw (system'\<lparr>rng_seed := Some 0\<rparr>) nm')))"
  by (simp add: Create_def Let_def)

subsection \<open>Loading metadata\<close>

text \<open>
  C10. When the capability parser returns an error, \<^verbatim>\<open>LoadFromMetadata\<close> returns that
  error and the process keeps what was written before the check: the program ID, the
  ideal core and the 64-bit flag of the metadata, and an address space that was reset to
  the metadata's address-space type. Nothing is rolled back; the handle table is not
  resized.
\<close>

theorem LoadFromMetadata_error_not_rolled_back:
  assumes "InitializeForUserProcess (capabilities p) (kernel_capabilities metadata)
             (Reset layout (md_address_space_type metadata) (vm_manager p)) = (e, caps)"
    and "IsError e"
    and "LoadFromMetadata layout InitializeForUserProcess p metadata = (r, p')"
  shows "r = e
     \<and> program_id p' = title_id metadata
     \<and> ideal_core p' = main_thread_core metadata
     \<and> is_64bit_process p' = is_64bit_program metadata
     \<and> vm_manager p' = Reset layout (md_address_space_type metadata) (vm_manager p)
     \<and> address_space_type (vm_manager p') = md_address_space_type metadata
     \<and> vma_map (vm_manager p') = []
     \<and> capabilities p' = caps
     \<and> handle_table p' = handle_table p
     \<and> p' = p\<lparr>program_id := title_id metadata, ideal_core := main_thread_core metadata,
               is_64bit_process := is_64bit_program metadata,
               vm_manager := Reset layout (md_address_space_type metadata) (vm_manager p),
               capabilities := caps\<rparr>"
  using assms
  by (auto simp: LoadFromMetadata_def Let_def Reset_def split: prod.splits)

theorem LoadFromMetadata_error_not_rolled_back_witness:
  "example_capability_parser (capabilities example_process) (kernel_capabilities example_metadata)
       (Reset example_layout (md_address_space_type example_metadata) (vm_manager example_process))
     = (ERR_OTHER 14, capabilities example_process)
   \<and> IsError (ERR_OTHER 14)
   \<and> LoadFromMetadata example_layout example_capability_parser example_process example_metadata
      = (ERR_OTHER 14,
         example_process\<lparr>program_id := 0x0100000000010000, ideal_core := 2,
           is_64bit_process := True,
           vm_manager := \<lparr>address_space_type = 3, code_region_base = 0x8000000,
             tls_io_region_base = 0x10000000, tls_io_region_end = 0x20000000, vma_map = []\<rparr>\<rparr>)
   \<and> program_id example_process = 0 \<and> ideal_core example_process = 0
   \<and> \<not> is_64bit_process example_process
   \<and> address_space_type (vm_manager example_process) = 0"
proof -
  let ?L = "LoadFromMetadata example_layout example_capability_parser example_process example_metadata"
  have h: "example_capability_parser (capabilities example_process)
       (kernel_capabilities example_metadata)
       (Reset example_layout (md_address_space_type example_metadata) (vm_manager example_process))
     = (ERR_OTHER 14, capabilities example_process)"
    "IsError (ERR_OTHER 14)"
    by (simp_all add: example_capability_parser_def example_metadata_def IsError_def)
  have l: "?L = (fst ?L, snd ?L)" by simp
  have before: "program_id example_process = 0" "ideal_core example_process = 0"
    "\<not> is_64bit_process example_process" "address_space_type (vm_manager example_process) = 0"
    by (simp_all add: example_process_def Create_def new_Process_def Let_def example_vm_def)
  from LoadFromMetadata_error_not_rolled_back [OF h l]
  have "?L = (ERR_OTHER 14,
         example_process\<lparr>program_id := 0x0100000000010000, ideal_core := 2,
           is_64bit_process := True,
           vm_manager := \<lparr>address_space_type = 3, code_region_base = 0x8000000,
             tls_io_region_base = 0x10000000, tls_io_region_end = 0x20000000, vma_map = []\<rparr>\<rparr>)"
    by (simp add: prod_eq_iff example_metadata_def Reset_def example_layout_def)
  with h before show ?thesis by simp
qed

end
